theory Spec2Isabelle
  imports Complex_Main "HOL-Library.Word" "HOL-Library.Log_Nat"
begin

section \<open>The serialization benchmark of performance.cpp\<close>

text \<open>
  The program times two binary serialization libraries on a fixed set of payloads. What
  it computes is modelled as pure functions; what it does to its surroundings (reading
  the clock, calling into a library, drawing from the random generator, printing) is
  modelled by passing an explicit state.
\<close>

subsection \<open>Numbers\<close>

text \<open>
  A C++ \<open>double\<close>: a finite value or one of the IEEE-754 specials. An arithmetic
  result is rounded to the nearest value with a significand of 53 bits, ties to the even
  one, as binary64 does. The range of the exponent and the sign of zero are not
  modelled: the program divides only integers of 64 bits, converted to \<open>double\<close>, and
  quotients of two such, so every operand and every result is zero or lies between
  \<open>2^-127\<close> and \<open>2^127\<close> in magnitude, far from overflow and underflow; and a divisor
  is an integer converted to \<open>double\<close> or the quotient of an integer by a positive
  count, never a negative zero.
\<close>

datatype double = Finite real | PosInf | NegInf | NaN

type_synonym float = double

type_synonym byte = "8 word"

text \<open>
  Rounding. \<open>exponent x\<close> is the \<open>e\<close> with \<open>2^e \<le> x < 2^(e+1)\<close>, for a positive \<open>x\<close>;
  a value with that exponent is rounded to a multiple of \<open>2^(e-52)\<close>.
\<close>

definition exponent :: "real \<Rightarrow> int" where
  "exponent x =
     (if 1 \<le> x then bitlen \<lfloor>x\<rfloor> - 1 else - bitlen (\<lceil>1 / x\<rceil> - 1))"

text \<open>The nearest integer, the even one of the two when both are as near.\<close>

definition round_half_even :: "real \<Rightarrow> int" where
  "round_half_even q =
     (let f = \<lfloor>q\<rfloor>; r = q - of_int f
      in if r < 1 / 2 then f else if 1 / 2 < r then f + 1 else if even f then f else f + 1)"

text \<open>The nearest \<open>double\<close>.\<close>

definition round_double :: "real \<Rightarrow> real" where
  "round_double x =
     (if x = 0 then 0
      else let ulp = 2 powi (exponent \<bar>x\<bar> - 52)
           in of_int (round_half_even (x / ulp)) * ulp)"

text \<open>The operator \<open>/\<close> on two doubles. Dividing by zero is not an error: it yields NaN
  for \<open>0 / 0\<close> and an infinity otherwise.\<close>

fun double_div :: "double \<Rightarrow> double \<Rightarrow> double" where
  "double_div NaN _ = NaN"
| "double_div _ NaN = NaN"
| "double_div (Finite x) (Finite y) =
     (if y = 0 then (if x = 0 then NaN else if 0 < x then PosInf else NegInf)
      else Finite (round_double (x / y)))"
| "double_div (Finite x) PosInf = Finite 0"
| "double_div (Finite x) NegInf = Finite 0"
| "double_div PosInf (Finite y) = (if 0 \<le> y then PosInf else NegInf)"
| "double_div NegInf (Finite y) = (if 0 \<le> y then NegInf else PosInf)"
| "double_div PosInf PosInf = NaN"
| "double_div PosInf NegInf = NaN"
| "double_div NegInf PosInf = NaN"
| "double_div NegInf NegInf = NaN"

text \<open>\<open>static_cast<double>\<close> of a \<open>size_t\<close>, and the conversion of a millisecond count
  (\<open>std::chrono::milliseconds::rep\<close>, a signed integer) to \<open>double\<close>. Both round: an
  integer above \<open>2^53\<close> need not be a \<open>double\<close>.\<close>

definition double_of_size :: "nat \<Rightarrow> double" where
  "double_of_size n = Finite (round_double (real n))"

definition double_of_count :: "int \<Rightarrow> double" where
  "double_of_count k = Finite (round_double (real_of_int k))"

subsection \<open>The surroundings\<close>

text \<open>The two libraries under test, and the calls the harness makes into them.\<close>

datatype library = Boost | Cereal

datatype 'd call = Save library 'd | Load library "byte list"

text \<open>
  One library's pair of entry points for a payload type \<open>'d\<close> (\<open>struct boostBinary\<close>,
  \<open>struct cerealBinary\<close>). Each call builds a fresh archive on the stream it is given,
  so what \<open>save\<close> writes depends on the payload only, and what \<open>load\<close> rebuilds
  depends on the bytes only. The libraries themselves are not part of the program: they
  are parameters.
\<close>

record 'd archive =
  save :: "'d \<Rightarrow> byte list"
  load :: "byte list \<Rightarrow> 'd"

text \<open>\<open>struct binary\<close>: the two libraries under the fixed names \<open>boost\<close> and \<open>cereal\<close>.\<close>

record 'd serialization =
  boost :: "'d archive"
  cereal :: "'d archive"

text \<open>A line of standard output: text, or a \<open>boost::format\<close> string with its arguments
  (the rendering of the numbers is left to the library).\<close>

datatype line = Text string | Format string "double list"

text \<open>
  What the program has done so far: how often it has read the clock, which library
  calls it has made (oldest first, each with the payload or the bytes it was given),
  and what it has printed.
\<close>

record 'd world =
  clock_reads :: nat
  calls :: "'d call list"
  stdout :: "line list"

definition print :: "line \<Rightarrow> 'd world \<Rightarrow> 'd world" where
  "print out w = w\<lparr>stdout := stdout w @ [out]\<rparr>"

text \<open>
  \<open>std::chrono::high_resolution_clock::now()\<close>. The clock is a parameter: \<open>clk k\<close> is
  what the \<open>k\<close>-th reading of a run returns, in ticks of one nanosecond.
\<close>

definition clock_now :: "(nat \<Rightarrow> int) \<Rightarrow> 'd world \<Rightarrow> int \<times> 'd world" where
  "clock_now clk w = (clk (clock_reads w), w\<lparr>clock_reads := Suc (clock_reads w)\<rparr>)"

text \<open>\<open>duration_cast<milliseconds>\<close> of a nanosecond count: integer division by
  \<open>10^6\<close>, truncating towards zero.\<close>

definition duration_cast_ms :: "int \<Rightarrow> int" where
  "duration_cast_ms ns = sgn ns * (\<bar>ns\<bar> div 1000000)"

text \<open>\<open>SerializationT::boost::save<DataT>\<close> and its three siblings: the library writes
  the payload's bytes to the stream, or rebuilds a payload from the stream.\<close>

definition archive_save ::
  "library \<Rightarrow> 'd archive \<Rightarrow> byte list \<Rightarrow> 'd \<Rightarrow> 'd world \<Rightarrow> byte list \<times> 'd world" where
  "archive_save lib ar os data w = (os @ save ar data, w\<lparr>calls := calls w @ [Save lib data]\<rparr>)"

definition archive_load ::
  "library \<Rightarrow> 'd archive \<Rightarrow> byte list \<Rightarrow> 'd world \<Rightarrow> 'd \<times> 'd world" where
  "archive_load lib ar is w = (load ar is, w\<lparr>calls := calls w @ [Load lib is]\<rparr>)"

subsection \<open>Timing one call\<close>

text \<open>\<open>saveData\<close>: the time the save function takes, in whole milliseconds, and the
  stream it has written to.\<close>

definition saveData ::
  "(nat \<Rightarrow> int) \<Rightarrow> 'd \<Rightarrow> (byte list \<Rightarrow> 'd \<Rightarrow> 'd world \<Rightarrow> byte list \<times> 'd world) \<Rightarrow> byte list
     \<Rightarrow> 'd world \<Rightarrow> (int \<times> byte list) \<times> 'd world" where
  "saveData clk data saveFunction os w0 =
     (let (start, w1) = clock_now clk w0;
          (os', w2) = saveFunction os data w1;
          (stop, w3) = clock_now clk w2
      in ((duration_cast_ms (stop - start), os'), w3))"

text \<open>\<open>loadData\<close>: the loaded payload and the time the load function takes.\<close>

definition loadData ::
  "(nat \<Rightarrow> int) \<Rightarrow> byte list \<Rightarrow> (byte list \<Rightarrow> 'd world \<Rightarrow> 'd \<times> 'd world)
     \<Rightarrow> 'd world \<Rightarrow> ('d \<times> int) \<times> 'd world" where
  "loadData clk dataStream loadFunction w0 =
     (let is = dataStream;
          (start, w1) = clock_now clk w0;
          (data, w2) = loadFunction is w1;
          (stop, w3) = clock_now clk w2
      in ((data, duration_cast_ms (stop - start)), w3))"

subsection \<open>The timing harness\<close>

text \<open>
  The accumulators of \<open>test\<close>. The totals are counts of milliseconds, in C++ a signed
  integer of at least 45 bits; they are unbounded integers here, and so are the sizes
  and the repeat count (\<open>size_t\<close>): none of them can wrap around in a run that ends.
\<close>

record locals =
  totalBoostSave :: int
  totalBoostLoad :: int
  totalCerealSave :: int
  totalCerealLoad :: int
  boostSize :: nat
  cerealSize :: nat

text \<open>All six start at zero.\<close>

definition zero_locals :: locals where
  "zero_locals = \<lparr>totalBoostSave = 0, totalBoostLoad = 0,
                   totalCerealSave = 0, totalCerealLoad = 0,
                   boostSize = 0, cerealSize = 0\<rparr>"

text \<open>
  The body of the loop of \<open>test\<close>: one save and one load with each library. The
  statement under \<open>if( validateData )\<close> is empty in the source, so both branches leave
  everything as it is.
\<close>

definition test_iteration ::
  "'d serialization \<Rightarrow> (nat \<Rightarrow> int) \<Rightarrow> 'd \<Rightarrow> bool \<Rightarrow> locals \<times> 'd world \<Rightarrow> locals \<times> 'd world" where
  "test_iteration ser clk data validateData = (\<lambda>(l0, w0).
     let ((saveResultB, osB), w1) = saveData clk data (archive_save Boost (boost ser)) [] w0;
         l1 = l0\<lparr>totalBoostSave := totalBoostSave l0 + saveResultB\<rparr>;
         l2 = (if boostSize l1 = 0 then l1\<lparr>boostSize := length osB\<rparr> else l1);
         (loadResultB, w2) = loadData clk osB (archive_load Boost (boost ser)) w1;
         l3 = l2\<lparr>totalBoostLoad := totalBoostLoad l2 + snd loadResultB\<rparr>;
         l4 = (if validateData then l3 else l3);
         ((saveResultC, osC), w3) = saveData clk data (archive_save Cereal (cereal ser)) [] w2;
         l5 = l4\<lparr>totalCerealSave := totalCerealSave l4 + saveResultC\<rparr>;
         l6 = (if cerealSize l5 = 0 then l5\<lparr>cerealSize := length osC\<rparr> else l5);
         (loadResultC, w4) = loadData clk osC (archive_load Cereal (cereal ser)) w3;
         l7 = l6\<lparr>totalCerealLoad := totalCerealLoad l6 + snd loadResultC\<rparr>;
         l8 = (if validateData then l7 else l7)
     in (l8, w4))"

text \<open>\<open>for(size_t i = 0; i < numAverages; ++i)\<close>.\<close>

function test_loop ::
  "'d serialization \<Rightarrow> (nat \<Rightarrow> int) \<Rightarrow> 'd \<Rightarrow> bool \<Rightarrow> nat \<Rightarrow> nat \<Rightarrow> locals \<times> 'd world
     \<Rightarrow> locals \<times> 'd world" where
  "test_loop ser clk data validateData i numAverages s =
     (if i < numAverages
      then test_loop ser clk data validateData (Suc i) numAverages
             (test_iteration ser clk data validateData s)
      else s)"
  by pat_completeness auto
termination
  by (relation "measure (\<lambda>(ser, clk, data, validateData, i, numAverages, s). numAverages - i)") auto

declare test_loop.simps [simp del]

text \<open>The averages and the ratios relative to boost, computed after the loop.\<close>

record statistics =
  averageBoostSave :: double
  averageBoostLoad :: double
  averageCerealSave :: double
  averageCerealLoad :: double
  cerealSaveP :: double
  cerealLoadP :: double
  cerealSizeP :: double

definition test_statistics :: "locals \<Rightarrow> nat \<Rightarrow> statistics" where
  "test_statistics l numAverages =
     (let avgBoostSave = double_div (double_of_count (totalBoostSave l)) (double_of_size numAverages);
          avgBoostLoad = double_div (double_of_count (totalBoostLoad l)) (double_of_size numAverages);
          avgCerealSave = double_div (double_of_count (totalCerealSave l)) (double_of_size numAverages);
          avgCerealLoad = double_div (double_of_count (totalCerealLoad l)) (double_of_size numAverages)
      in \<lparr>averageBoostSave = avgBoostSave,
          averageBoostLoad = avgBoostLoad,
          averageCerealSave = avgCerealSave,
          averageCerealLoad = avgCerealLoad,
          cerealSaveP = double_div avgCerealSave avgBoostSave,
          cerealLoadP = double_div avgCerealLoad avgBoostLoad,
          cerealSizeP = double_div (double_of_size (cerealSize l)) (double_of_size (boostSize l))\<rparr>)"

text \<open>The two format strings of the report; each starts with a tab.\<close>

definition save_format :: string where
  "save_format = CHR 0x09 # ''save | time: %06.4fms (%1.2f) size: %20.8fkb (%1.8f) total: %6.1fms''"

definition load_format :: string where
  "load_format = CHR 0x09 # ''load | time: %06.4fms (%1.2f) total: %6.1fms''"

text \<open>The report \<open>test\<close> prints after the loop.\<close>

definition print_report :: "locals \<Rightarrow> statistics \<Rightarrow> 'd world \<Rightarrow> 'd world" where
  "print_report l st w0 =
     (let w1 = print (Text ''  Boost results:'') w0;
          w2 = print (Format save_format
                 [averageBoostSave st, Finite 1.0,
                  double_div (double_of_size (boostSize l)) (Finite 1024.0), Finite 1.0,
                  double_of_count (totalBoostSave l)]) w1;
          w3 = print (Format load_format
                 [averageBoostLoad st, Finite 1.0, double_of_count (totalBoostLoad l)]) w2;
          w4 = print (Text ''  Cereal results:'') w3;
          w5 = print (Format save_format
                 [averageCerealSave st, cerealSaveP st,
                  double_div (double_of_size (cerealSize l)) (Finite 1024.0), cerealSizeP st,
                  double_of_count (totalCerealSave l)]) w4;
          w6 = print (Format load_format
                 [averageCerealLoad st, cerealLoadP st, double_of_count (totalCerealLoad l)]) w5
      in w6)"

text \<open>
  \<open>test\<close>: prints the header, runs the loop \<open>numAverages\<close> times from zeroed
  accumulators, computes the statistics and prints the report. The source has no other
  path through the function: no argument is checked and nothing is returned.
\<close>

definition test ::
  "'d serialization \<Rightarrow> (nat \<Rightarrow> int) \<Rightarrow> string \<Rightarrow> 'd \<Rightarrow> nat \<Rightarrow> bool \<Rightarrow> 'd world \<Rightarrow> 'd world" where
  "test ser clk name data numAverages validateData w0 =
     (let w1 = print (Text ''-----------------------------------'') w0;
          w2 = print (Text (''Running test: '' @ name)) w1;
          l0 = zero_locals;
          (l, w3) = test_loop ser clk data validateData 0 numAverages (l0, w2);
          st = test_statistics l numAverages
      in print_report l st w3)"

subsection \<open>Random values\<close>

text \<open>
  The generator \<open>std::mt19937\<close> and the distributions of \<open><random>\<close> belong to the
  standard library: they are parameters. \<open>'g\<close> is the state of the engine; applying a
  distribution to it gives a value and the next state. The helpers
  \<open>random_basic_string\<close> and \<open>random_binary_string\<close> are called nowhere in the program
  and are left out.
\<close>

record 'g random_library =
  mt19937 :: "32 word \<Rightarrow> 'g"
  uniform_int_distribution :: "int \<Rightarrow> int \<Rightarrow> 'g \<Rightarrow> int \<times> 'g"
  uniform_real_distribution :: "real \<Rightarrow> real \<Rightarrow> 'g \<Rightarrow> real \<times> 'g"

text \<open>The generator \<open>gen\<close> of \<open>main\<close>, with the number of values drawn from it so far.\<close>

record 'g rng =
  engine :: 'g
  draws :: nat

definition draw :: "('g \<Rightarrow> 'x \<times> 'g) \<Rightarrow> 'g rng \<Rightarrow> 'x \<times> 'g rng" where
  "draw distribution gen = (let (x, e) = distribution (engine gen) in (x, \<lparr>engine = e, draws = Suc (draws gen)\<rparr>))"

text \<open>\<open>for(auto & x : xs) x = rng();\<close> assigns a fresh value to each element in turn.\<close>

fun assign_each :: "('g rng \<Rightarrow> 'x \<times> 'g rng) \<Rightarrow> 'x list \<Rightarrow> 'g rng \<Rightarrow> 'x list \<times> 'g rng" where
  "assign_each rng [] gen = ([], gen)"
| "assign_each rng (x # xs) gen =
     (let (y, gen1) = rng gen;
          (ys, gen2) = assign_each rng xs gen1
      in (y # ys, gen2))"

text \<open>\<open>random_value<T>\<close> for a floating-point \<open>T\<close> (here \<open>double\<close>).\<close>

definition random_value_double :: "'g random_library \<Rightarrow> 'g rng \<Rightarrow> double \<times> 'g rng" where
  "random_value_double R gen =
     (let (x, gen1) = draw (uniform_real_distribution R (- 10000.0) 10000.0) gen
      in (Finite x, gen1))"

text \<open>\<open>random_value<T>\<close> for an integral \<open>T\<close> (here \<open>uint8_t\<close>, from its lowest value
  0 to its greatest 255).\<close>

definition random_value_uint8 :: "'g random_library \<Rightarrow> 'g rng \<Rightarrow> 8 word \<times> 'g rng" where
  "random_value_uint8 R gen =
     (let (x, gen1) = draw (uniform_int_distribution R 0 255) gen
      in (word_of_int x, gen1))"

text \<open>
  \<open>random_value<std::string>\<close>: a string of blanks whose length is drawn from
  \<open>uniform_int_distribution<int>(3, 30)\<close>, then each character drawn from
  \<open>uniform_int_distribution<char>(' ', '~')\<close>.
\<close>

definition random_value_string :: "'g random_library \<Rightarrow> 'g rng \<Rightarrow> string \<times> 'g rng" where
  "random_value_string R gen =
     (let (n, gen1) = draw (uniform_int_distribution R 3 30) gen;
          s = replicate (nat n) (CHR '' '')
      in assign_each
           (\<lambda>g. let (x, g1) = draw (uniform_int_distribution R (of_char (CHR '' '')) (of_char (CHR ''~''))) g
                in (char_of x, g1))
           s gen1)"

subsection \<open>Payloads\<close>

text \<open>
  \<open>struct PoDStruct\<close>, and \<open>struct PoDChild : PoDStruct\<close> with its vector of floats.
  Their \<open>serialize\<close> members tell a library which fields to visit; with the libraries
  as parameters they have no counterpart here.
\<close>

record PoDStruct =
  a :: "32 word"
  b :: "64 word"
  c :: float
  d :: double

record PoDChild = PoDStruct +
  v :: "float list"

text \<open>The four instances of \<open>DataT\<close> that \<open>main\<close> hands to \<open>test\<close>.\<close>

datatype payload =
    VectorDouble "double list"
  | VectorUInt8 "8 word list"
  | VectorPoDStruct "PoDStruct list"
  | VectorPoDChild "PoDChild list"

text \<open>\<open>std::vector<T> data(s)\<close> for a \<open>T\<close> without a constructor of its own: \<open>s\<close>
  value-initialized elements, that is, zeros.\<close>

definition vector :: "nat \<Rightarrow> 'x \<Rightarrow> 'x list" where
  "vector s zero = replicate s zero"

definition zero_PoDStruct :: PoDStruct where
  "zero_PoDStruct = \<lparr>a = 0, b = 0, c = Finite 0, d = Finite 0\<rparr>"

text \<open>
  \<open>PoDChild() : v(1024) { }\<close> initializes \<open>v\<close> and nothing else: the four inherited
  fields keep whatever the memory held, here the argument.
\<close>

definition PoDChild_ctor :: "PoDStruct \<Rightarrow> PoDChild" where
  "PoDChild_ctor mem = \<lparr>a = a mem, b = b mem, c = c mem, d = d mem, v = vector 1024 (Finite 0)\<rparr>"

text \<open>\<open>std::vector<PoDChild> data(s)\<close>: element \<open>k\<close> is constructed over \<open>mem k\<close>.\<close>

definition vector_PoDChild :: "nat \<Rightarrow> (nat \<Rightarrow> PoDStruct) \<Rightarrow> PoDChild list" where
  "vector_PoDChild s mem = map (\<lambda>k. PoDChild_ctor (mem k)) [0..<s]"

subsection \<open>The driver\<close>

text \<open>
  What \<open>main\<close> takes from outside the program: the two libraries, the clock, the
  random library, the value \<open>std::random_device\<close> returns, and the contents of
  uninitialized memory.
\<close>

record 'g platform =
  boostBinary :: "payload archive"
  cerealBinary :: "payload archive"
  clock :: "nat \<Rightarrow> int"
  random_lib :: "'g random_library"
  rd :: "32 word"
  indeterminate :: "nat \<Rightarrow> PoDStruct"

definition binary :: "'g platform \<Rightarrow> payload serialization" where
  "binary P = \<lparr>boost = boostBinary P, cereal = cerealBinary P\<rparr>"

text \<open>The conversion of an \<open>int\<close> argument to \<open>size_t\<close> (modulo \<open>2^64\<close>), and
  \<open>operator<<\<close> for a \<open>size_t\<close>: its decimal digits.\<close>

definition size_of_int :: "32 word \<Rightarrow> nat" where
  "size_of_int k = nat (sint k mod 2 ^ 64)"

definition digit_char :: "nat \<Rightarrow> char" where
  "digit_char k = ''0123456789'' ! k"

function show_size :: "nat \<Rightarrow> string" where
  "show_size n = (if n < 10 then [digit_char n] else show_size (n div 10) @ [digit_char (n mod 10)])"
  by pat_completeness auto
termination
  by (relation "measure id") auto

declare show_size.simps [simp del]

text \<open>The four lambdas of \<open>main\<close>. \<open>test\<close> is called with its default arguments:
  ten repetitions, no validation.\<close>

definition vectorDoubleTest ::
  "'g platform \<Rightarrow> ('g rng \<Rightarrow> double \<times> 'g rng) \<Rightarrow> nat \<Rightarrow> bool \<Rightarrow> 'g rng \<times> payload world
     \<Rightarrow> 'g rng \<times> payload world" where
  "vectorDoubleTest P rngD s randomize = (\<lambda>(gen, w).
     let name = ''Vector(double) size '' @ show_size s;
         data = vector s (Finite 0);
         (data, gen) = (if randomize then assign_each rngD data gen else (data, gen))
     in (gen, test (binary P) (clock P) name (VectorDouble data) 10 False w))"

definition vectorCharTest ::
  "'g platform \<Rightarrow> ('g rng \<Rightarrow> 8 word \<times> 'g rng) \<Rightarrow> nat \<Rightarrow> bool \<Rightarrow> 'g rng \<times> payload world
     \<Rightarrow> 'g rng \<times> payload world" where
  "vectorCharTest P rngC s randomize = (\<lambda>(gen, w).
     let name = ''Vector(uint8_t) size '' @ show_size s;
         data = vector s 0;
         (data, gen) = (if randomize then assign_each rngC data gen else (data, gen))
     in (gen, test (binary P) (clock P) name (VectorUInt8 data) 10 False w))"

definition vectorPoDStructTest :: "'g platform \<Rightarrow> nat \<Rightarrow> payload world \<Rightarrow> payload world" where
  "vectorPoDStructTest P s w =
     (let name = ''Vector(PoDStruct) size '' @ show_size s;
          data = vector s zero_PoDStruct
      in test (binary P) (clock P) name (VectorPoDStruct data) 10 False w)"

definition vectorPoDChildTest :: "'g platform \<Rightarrow> nat \<Rightarrow> payload world \<Rightarrow> payload world" where
  "vectorPoDChildTest P s w =
     (let name = ''Vector(PoDChild) size '' @ show_size s;
          data = vector_PoDChild s (indeterminate P)
      in test (binary P) (clock P) name (VectorPoDChild data) 10 False w)"

text \<open>\<open>main\<close>: the exit code, and with it the generator and the world as the run leaves
  them.\<close>

definition main :: "'g platform \<Rightarrow> payload world \<Rightarrow> int \<times> 'g rng \<times> payload world" where
  "main P w0 =
     (let gen = \<lparr>engine = mt19937 (random_lib P) (rd P), draws = 0\<rparr>;
          rngC = random_value_uint8 (random_lib P);
          rngD = random_value_double (random_lib P);
          randomize = False;
          (gen, w) = vectorDoubleTest P rngD (size_of_int 1) randomize (gen, w0);
          (gen, w) = vectorDoubleTest P rngD (size_of_int 16) randomize (gen, w);
          (gen, w) = vectorDoubleTest P rngD (size_of_int 1024) randomize (gen, w);
          (gen, w) = vectorDoubleTest P rngD (size_of_int (1024 * 1024)) randomize (gen, w);
          (gen, w) = vectorCharTest P rngC (size_of_int (1024 * 1024 * 1024)) randomize (gen, w);
          w = vectorPoDStructTest P (size_of_int 1) w;
          w = vectorPoDStructTest P (size_of_int 64) w;
          w = vectorPoDStructTest P (size_of_int 1024) w;
          w = vectorPoDStructTest P (size_of_int (1024 * 1024)) w;
          w = vectorPoDStructTest P (size_of_int (1024 * 1024 * 64)) w;
          w = vectorPoDChildTest P (size_of_int (1024 * 64)) w
      in (0, gen, w))"

subsection \<open>Notions used to state the properties\<close>

text \<open>What the timed call that starts at clock reading \<open>k\<close> measures, and the sum of
  \<open>n\<close> such measurements taken every eighth reading from reading \<open>r\<close> on (an
  iteration of the loop reads the clock eight times).\<close>

definition elapsed :: "(nat \<Rightarrow> int) \<Rightarrow> nat \<Rightarrow> int" where
  "elapsed clk k = duration_cast_ms (clk (Suc k) - clk k)"

definition total_elapsed :: "(nat \<Rightarrow> int) \<Rightarrow> nat \<Rightarrow> nat \<Rightarrow> int" where
  "total_elapsed clk r n = sum_list (map (\<lambda>j. elapsed clk (r + 8 * j)) [0..<n])"

text \<open>The library calls of one iteration, in order.\<close>

definition round_trip_calls :: "'d serialization \<Rightarrow> 'd \<Rightarrow> 'd call list" where
  "round_trip_calls ser data =
     [Save Boost data, Load Boost (save (boost ser) data),
      Save Cereal data, Load Cereal (save (cereal ser) data)]"

fun is_save :: "library \<Rightarrow> 'd call \<Rightarrow> bool" where
  "is_save lib (Save lib' x) = (lib = lib')"
| "is_save lib (Load lib' bs) = False"

fun is_load :: "library \<Rightarrow> 'd call \<Rightarrow> bool" where
  "is_load lib (Save lib' x) = False"
| "is_load lib (Load lib' bs) = (lib = lib')"

text \<open>The payloads the save calls were given, oldest first.\<close>

fun saved_payloads :: "'d call list \<Rightarrow> 'd list" where
  "saved_payloads [] = []"
| "saved_payloads (Save lib x # cs) = x # saved_payloads cs"
| "saved_payloads (Load lib bs # cs) = saved_payloads cs"

text \<open>The values that \<open>n\<close> successive applications of a distribution yield from engine
  state \<open>e\<close> on, and the state they leave.\<close>

primrec draw_values :: "('g \<Rightarrow> 'x \<times> 'g) \<Rightarrow> nat \<Rightarrow> 'g \<Rightarrow> 'x list" where
  "draw_values distribution 0 e = []"
| "draw_values distribution (Suc n) e =
     fst (distribution e) # draw_values distribution n (snd (distribution e))"

primrec engine_after :: "('g \<Rightarrow> 'x \<times> 'g) \<Rightarrow> nat \<Rightarrow> 'g \<Rightarrow> 'g" where
  "engine_after distribution 0 e = e"
| "engine_after distribution (Suc n) e = engine_after distribution n (snd (distribution e))"

text \<open>The state of a run that has done nothing yet.\<close>

definition initial_world :: "'d world" where
  "initial_world = \<lparr>clock_reads = 0, calls = [], stdout = []\<rparr>"

subsection \<open>Sample inputs\<close>

text \<open>
  Toy libraries for a payload that is a number \<open>n\<close>. The first writes \<open>n\<close> zero bytes
  and reads the number back as the length; the second writes the same but always loads
  0; the third writes nothing at all.
\<close>

definition length_archive :: "nat archive" where
  "length_archive = \<lparr>save = (\<lambda>n. replicate n 0), load = length\<rparr>"

definition lossy_archive :: "nat archive" where
  "lossy_archive = \<lparr>save = (\<lambda>n. replicate n 0), load = (\<lambda>bs. 0)\<rparr>"

definition sample_binary :: "nat serialization" where
  "sample_binary = \<lparr>boost = length_archive, cereal = lossy_archive\<rparr>"

definition empty_archive :: "nat archive" where
  "empty_archive = \<lparr>save = (\<lambda>n. []), load = (\<lambda>bs. 0)\<rparr>"

text \<open>
  A toy random library: the engine state is a counter, and a draw from \<open>[lo, hi]\<close> is
  \<open>lo\<close> plus the counter modulo the width of the range.
\<close>

definition toy_random :: "nat random_library" where
  "toy_random =
     \<lparr>mt19937 = unat,
      uniform_int_distribution = (\<lambda>lo hi e. (lo + int e mod (hi - lo + 1), Suc e)),
      uniform_real_distribution = (\<lambda>lo hi e. (lo, Suc e))\<rparr>"

text \<open>
  Two clocks. On the first no time passes at all. On the second an iteration takes 8 ms:
  1 ms for each call into boost and 2 ms for each call into cereal.
\<close>

definition frozen_clock :: "nat \<Rightarrow> int" where
  "frozen_clock k = 0"

definition sample_clock :: "nat \<Rightarrow> int" where
  "sample_clock k = (8 * int (k div 8) + [0, 1, 1, 2, 2, 4, 4, 6] ! (k mod 8)) * 1000000"

text \<open>A third clock: the first save with boost takes 1 ms, the first save with cereal
  5 ms, and no other call takes any time.\<close>

definition uneven_clock :: "nat \<Rightarrow> int" where
  "uneven_clock k = (if k = 0 then 0 else if k \<le> 4 then 1000000 else 6000000)"

section \<open>Properties\<close>

subsection \<open>Rounding\<close>

text \<open>The exponent is the right one, and the only one.\<close>

lemma powi_neg: "0 \<le> k \<Longrightarrow> (2::real) powi (- k) = 1 / 2 ^ nat k"
  by (simp add: power_int_minus_divide power_int_nonneg_exp)

lemma exponent_bounds:
  assumes "0 < x"
  shows "2 powi exponent x \<le> x" "x < 2 powi (exponent x + 1)"
proof -
  show "2 powi exponent x \<le> x"
  proof (cases "1 \<le> x")
    case True
    then have n: "0 < \<lfloor>x\<rfloor>" by simp
    have "0 \<le> bitlen \<lfloor>x\<rfloor> - 1"
      using n bitlen_eq_zero_iff [of "\<lfloor>x\<rfloor>"] bitlen_nonneg [of "\<lfloor>x\<rfloor>"] by linarith
    then have "2 powi exponent x = (2::real) ^ nat (bitlen \<lfloor>x\<rfloor> - 1)"
      using True by (simp add: exponent_def power_int_nonneg_exp)
    also have "\<dots> = real_of_int (2 ^ nat (bitlen \<lfloor>x\<rfloor> - 1))" by simp
    also have "\<dots> \<le> real_of_int \<lfloor>x\<rfloor>"
      using bitlen_bounds [OF n] by (intro of_int_le_iff [THEN iffD2]) simp
    also have "\<dots> \<le> x" by simp
    finally show ?thesis .
  next
    case False
    with assms have y: "1 < 1 / x" by simp
    then have m: "0 < \<lceil>1 / x\<rceil> - 1" by linarith
    let ?b = "bitlen (\<lceil>1 / x\<rceil> - 1)"
    have b: "0 \<le> ?b" by (rule bitlen_nonneg)
    have "1 / x \<le> real_of_int \<lceil>1 / x\<rceil>" by simp
    also have "\<lceil>1 / x\<rceil> \<le> 2 ^ nat ?b"
      using bitlen_bounds [OF m] by linarith
    then have "real_of_int \<lceil>1 / x\<rceil> \<le> real_of_int (2 ^ nat ?b)"
      by (rule of_int_le_iff [THEN iffD2])
    finally have "1 / x \<le> 2 ^ nat ?b" by simp
    then have "1 / 2 ^ nat ?b \<le> x"
      using assms by (simp add: field_simps)
    moreover have "2 powi exponent x = 1 / (2::real) ^ nat ?b"
      using False b by (simp add: exponent_def power_int_minus_divide power_int_nonneg_exp)
    ultimately show ?thesis by simp
  qed
  show "x < 2 powi (exponent x + 1)"
  proof (cases "1 \<le> x")
    case True
    then have n: "0 < \<lfloor>x\<rfloor>" by simp
    have b: "0 \<le> bitlen \<lfloor>x\<rfloor>" by (rule bitlen_nonneg)
    have "\<lfloor>x\<rfloor> + 1 \<le> 2 ^ nat (bitlen \<lfloor>x\<rfloor>)"
      using bitlen_bounds [OF n] by linarith
    then have "real_of_int (\<lfloor>x\<rfloor> + 1) \<le> real_of_int (2 ^ nat (bitlen \<lfloor>x\<rfloor>))"
      by (rule of_int_le_iff [THEN iffD2])
    then have "real_of_int \<lfloor>x\<rfloor> + 1 \<le> 2 ^ nat (bitlen \<lfloor>x\<rfloor>)" by simp
    moreover have "x < real_of_int \<lfloor>x\<rfloor> + 1" by linarith
    ultimately have "x < 2 ^ nat (bitlen \<lfloor>x\<rfloor>)" by linarith
    moreover have "2 powi (exponent x + 1) = (2::real) ^ nat (bitlen \<lfloor>x\<rfloor>)"
      using True b by (simp add: exponent_def power_int_nonneg_exp)
    ultimately show ?thesis by simp
  next
    case False
    with assms have y: "1 < 1 / x" by simp
    then have m: "0 < \<lceil>1 / x\<rceil> - 1" by linarith
    let ?b = "bitlen (\<lceil>1 / x\<rceil> - 1)"
    have b: "1 \<le> ?b"
      using m bitlen_eq_zero_iff [of "\<lceil>1 / x\<rceil> - 1"] bitlen_nonneg [of "\<lceil>1 / x\<rceil> - 1"]
      by linarith
    have "real_of_int (2 ^ nat (?b - 1)) \<le> real_of_int (\<lceil>1 / x\<rceil> - 1)"
      using bitlen_bounds [OF m] by (intro of_int_le_iff [THEN iffD2]) simp
    also have "\<dots> < 1 / x" by linarith
    finally have "2 ^ nat (?b - 1) < 1 / x" by simp
    then have "x < 1 / 2 ^ nat (?b - 1)"
      using assms by (simp add: field_simps)
    moreover have "2 powi (exponent x + 1) = 1 / (2::real) ^ nat (?b - 1)"
    proof -
      have "exponent x + 1 = - (?b - 1)" using False by (simp add: exponent_def)
      then show ?thesis
        using b powi_neg [of "?b - 1"] by (simp only:)
    qed
    ultimately show ?thesis by simp
  qed
qed

lemma powi_less_imp: "(2::real) powi m < 2 powi n \<Longrightarrow> m < n"
proof (rule ccontr)
  assume less: "(2::real) powi m < 2 powi n" and "\<not> m < n"
  then have "n \<le> m" by simp
  then have "(2::real) powi n \<le> 2 powi m" by (rule power_int_increasing) simp
  with less show False by simp
qed

lemma exponent_eqI:
  assumes "2 powi e \<le> x" "x < 2 powi (e + 1)"
  shows "exponent x = e"
proof -
  have pos: "0 < x"
    using assms(1) zero_less_power_int [of "2::real" e] by linarith
  note b = exponent_bounds [OF pos]
  have "(2::real) powi e < 2 powi (exponent x + 1)" using assms(1) b(2) by linarith
  then have "e < exponent x + 1"
    by (rule powi_less_imp)
  moreover have "(2::real) powi exponent x < 2 powi (e + 1)" using assms(2) b(1) by linarith
  then have "exponent x < e + 1" by (rule powi_less_imp)
  ultimately show ?thesis by linarith
qed

text \<open>
  Rounding keeps zero and the sign, and leaves every value with a significand of 53 bits
  as it is. The last two lemmas round values that are not such: \<open>1/3\<close>, \<open>5/3\<close> and the
  quotient of their roundings, which is not 5; then \<open>1/10\<close> and three integers just
  above \<open>2^53\<close> in magnitude, two of them half-way between two doubles.
\<close>

lemma round_half_even_bounds:
  "\<lfloor>q\<rfloor> \<le> round_half_even q" "round_half_even q \<le> \<lfloor>q\<rfloor> + 1"
  by (simp_all add: round_half_even_def Let_def)

lemma round_half_even_of_int: "round_half_even (of_int n) = n"
  by (simp add: round_half_even_def Let_def)

lemma round_double_0 [simp]: "round_double 0 = 0"
  by (simp add: round_double_def)

lemma scaled_ge:
  assumes "0 < x"
  shows "2 ^ 52 \<le> x / 2 powi (exponent x - 52)"
proof -
  have "2 powi (exponent x - 52) * 2 ^ 52 = (2::real) powi exponent x"
    using power_int_add [of "2::real" "exponent x - 52" 52] by simp
  also have "\<dots> \<le> x" by (rule exponent_bounds(1) [OF assms])
  finally show ?thesis
    by (simp add: pos_le_divide_eq mult.commute)
qed

lemma round_double_pos:
  assumes "0 < x"
  shows "0 < round_double x"
proof -
  let ?u = "(2::real) powi (exponent \<bar>x\<bar> - 52)"
  have u: "0 < ?u" by simp
  have "2 ^ 52 \<le> x / ?u" using scaled_ge [OF assms] assms by simp
  then have "(2::int) ^ 52 \<le> \<lfloor>x / ?u\<rfloor>" by (simp add: le_floor_iff)
  also have "\<dots> \<le> round_half_even (x / ?u)" by (rule round_half_even_bounds)
  finally have "0 < round_half_even (x / ?u)" by simp
  then have "0 < real_of_int (round_half_even (x / ?u)) * ?u"
    using u by simp
  then show ?thesis using assms by (simp add: round_double_def Let_def)
qed

lemma round_double_neg:
  assumes "x < 0"
  shows "round_double x < 0"
proof -
  let ?u = "(2::real) powi (exponent \<bar>x\<bar> - 52)"
  have u: "0 < ?u" by simp
  have "2 ^ 52 \<le> \<bar>x\<bar> / ?u" using scaled_ge [of "\<bar>x\<bar>"] assms by simp
  then have "x / ?u \<le> - 4503599627370496" using assms by simp
  then have "\<lfloor>x / ?u\<rfloor> \<le> - 4503599627370496" by (simp add: floor_le_iff)
  moreover have "round_half_even (x / ?u) \<le> \<lfloor>x / ?u\<rfloor> + 1" by (rule round_half_even_bounds)
  ultimately have "round_half_even (x / ?u) < 0" by linarith
  then have "real_of_int (round_half_even (x / ?u)) * ?u < 0"
    using u by (simp add: mult_less_0_iff)
  then show ?thesis using assms by (simp add: round_double_def Let_def)
qed

lemma round_double_eq_0_iff [simp]: "round_double x = 0 \<longleftrightarrow> x = 0"
  using round_double_pos [of x] round_double_neg [of x] by (cases "x = 0") (auto simp: neq_iff)

lemma round_double_pos_iff [simp]: "0 < round_double x \<longleftrightarrow> 0 < x"
proof (cases x "0::real" rule: linorder_cases)
  case less
  with round_double_neg [of x] show ?thesis by simp
next
  case equal
  then show ?thesis by simp
next
  case greater
  with round_double_pos [of x] show ?thesis by simp
qed

lemma round_double_neg_iff [simp]: "round_double x < 0 \<longleftrightarrow> x < 0"
proof (cases x "0::real" rule: linorder_cases)
  case less
  with round_double_neg [of x] show ?thesis by simp
next
  case equal
  then show ?thesis by simp
next
  case greater
  then have "0 < round_double x" by (rule round_double_pos)
  with greater show ?thesis by linarith
qed

lemma round_double_eval:
  assumes "2 powi e \<le> \<bar>x\<bar>" "\<bar>x\<bar> < 2 powi (e + 1)"
  shows "round_double x = of_int (round_half_even (x / 2 powi (e - 52))) * 2 powi (e - 52)"
proof -
  have "0 < \<bar>x\<bar>" using assms(1) zero_less_power_int [of "2::real" e] by linarith
  then have "x \<noteq> 0" by simp
  moreover have "exponent \<bar>x\<bar> = e" using assms by (rule exponent_eqI)
  ultimately show ?thesis by (simp add: round_double_def Let_def)
qed

lemma round_double_representable:
  assumes "\<bar>m\<bar> < 2 ^ 53"
  shows "round_double (of_int m * 2 powi k) = of_int m * 2 powi k"
proof (cases "m = 0")
  case True
  then show ?thesis by simp
next
  case False
  let ?x = "real_of_int m * 2 powi k"
  let ?e = "exponent \<bar>?x\<bar>"
  have x: "?x \<noteq> 0" using False by simp
  then have pos: "0 < \<bar>?x\<bar>" by simp
  have "\<bar>?x\<bar> = real_of_int \<bar>m\<bar> * 2 powi k" by (simp add: abs_mult)
  also have "\<dots> < 2 ^ 53 * 2 powi k"
  proof -
    have "real_of_int \<bar>m\<bar> < real_of_int (2 ^ 53)"
      using assms by (rule of_int_less_iff [THEN iffD2])
    then show ?thesis by simp
  qed
  also have "\<dots> = 2 powi (53 + k)"
    using power_int_add [of "2::real" 53 k] by simp
  finally have "\<bar>?x\<bar> < 2 powi (53 + k)" .
  with exponent_bounds(1) [OF pos] have "(2::real) powi ?e < 2 powi (53 + k)" by linarith
  then have "?e < 53 + k" by (rule powi_less_imp)
  then have j: "0 \<le> k - ?e + 52" by simp
  have "?x / 2 powi (?e - 52) = real_of_int m * 2 powi (k - ?e + 52)"
    using power_int_diff [of "2::real" k "?e - 52"] by (simp add: algebra_simps)
  also have "\<dots> = real_of_int (m * 2 ^ nat (k - ?e + 52))"
    using j by (simp add: power_int_nonneg_exp)
  finally have q: "?x / 2 powi (?e - 52) = real_of_int (m * 2 ^ nat (k - ?e + 52))" .
  have "round_double ?x =
      real_of_int (round_half_even (?x / 2 powi (?e - 52))) * 2 powi (?e - 52)"
    using x by (simp add: round_double_def Let_def)
  also have "\<dots> = real_of_int (m * 2 ^ nat (k - ?e + 52)) * 2 powi (?e - 52)"
    unfolding q round_half_even_of_int ..
  also have "\<dots> = real_of_int m * (2 powi (k - ?e + 52) * 2 powi (?e - 52))"
    using j by (simp add: power_int_nonneg_exp)
  also have "2 powi (k - ?e + 52) * 2 powi (?e - 52) = (2::real) powi k"
    using power_int_add [of "2::real" "k - ?e + 52" "?e - 52"] by simp
  finally show ?thesis .
qed

lemma round_double_of_int:
  "\<bar>m\<bar> < 2 ^ 53 \<Longrightarrow> round_double (of_int m) = of_int m"
  using round_double_representable [of m 0] by simp

lemma round_double_of_nat:
  "n < 2 ^ 53 \<Longrightarrow> round_double (real n) = real n"
  using round_double_of_int [of "int n"] by simp

lemma round_double_small [simp]:
  "round_double 1 = 1" "round_double 2 = 2" "round_double 3 = 3" "round_double 4 = 4"
  "round_double 5 = 5" "round_double (3 / 1024) = 3 / 1024"
  using round_double_representable [of 1 0] round_double_representable [of 2 0]
    round_double_representable [of 3 0] round_double_representable [of 4 0]
    round_double_representable [of 5 0] round_double_representable [of 3 "- 10"]
  by simp_all

lemma rounding_examples:
  "round_double (1 / 3) = 6004799503160661 / 2 ^ 54"
  "round_double (5 / 3) = 7505999378950827 / 2 ^ 52"
  "round_double ((7505999378950827 / 2 ^ 52) / (6004799503160661 / 2 ^ 54)) = 5629499534213121 / 2 ^ 50"
  by (simp_all add: round_double_eval [where e = "-2"] round_double_eval [where e = 0]
      round_double_eval [where e = 2] round_half_even_def Let_def)

lemma rounding_ties:
  "round_double 9007199254740993 = 9007199254740992"
  "round_double 9007199254740995 = 9007199254740996"
  "round_double (- 9007199254740993) = - 9007199254740992"
  "round_double (1 / 10) = 7205759403792794 / 2 ^ 56"
  by (simp_all add: round_double_eval [where e = 53] round_double_eval [where e = "-4"]
      round_half_even_def Let_def)

subsection \<open>What the loop computes\<close>

text \<open>One iteration adds four measurements, records a size where none is recorded yet,
  reads the clock eight times and makes four library calls.\<close>

lemma test_iteration_eq:
  "test_iteration ser clk data vd (l, w) =
     (\<lparr>totalBoostSave = totalBoostSave l + elapsed clk (clock_reads w),
       totalBoostLoad = totalBoostLoad l + elapsed clk (clock_reads w + 2),
       totalCerealSave = totalCerealSave l + elapsed clk (clock_reads w + 4),
       totalCerealLoad = totalCerealLoad l + elapsed clk (clock_reads w + 6),
       boostSize = (if boostSize l = 0 then length (save (boost ser) data) else boostSize l),
       cerealSize = (if cerealSize l = 0 then length (save (cereal ser) data) else cerealSize l)\<rparr>,
      w\<lparr>clock_reads := clock_reads w + 8, calls := calls w @ round_trip_calls ser data\<rparr>)"
  by (cases l; cases w)
     (simp add: test_iteration_def saveData_def loadData_def clock_now_def archive_save_def
      archive_load_def elapsed_def round_trip_calls_def Let_def eval_nat_numeral)

lemma total_elapsed_0: "total_elapsed clk r 0 = 0"
  by (simp add: total_elapsed_def)

lemma total_elapsed_Suc_shift:
  "total_elapsed clk r (Suc n) = elapsed clk r + total_elapsed clk (r + 8) n"
proof -
  have "[0..<Suc n] = 0 # map Suc [0..<n]"
    by (simp add: upt_conv_Cons map_Suc_upt del: upt_Suc)
  then show ?thesis
    by (simp add: total_elapsed_def comp_def add.assoc add.commute add.left_commute del: upt_Suc)
qed

text \<open>The loop from \<open>i\<close> to \<open>n\<close>, in closed form: first what it does to the world, then
  what it leaves in the accumulators.\<close>

lemma test_loop_world:
  "snd (test_loop ser clk data vd i n (l, w)) =
     w\<lparr>clock_reads := clock_reads w + 8 * (n - i),
       calls := calls w @ concat (replicate (n - i) (round_trip_calls ser data))\<rparr>"
proof (induction ser clk data vd i n "(l, w)" arbitrary: l w rule: test_loop.induct)
  case (1 ser clk data vd i n)
  show ?case
  proof (cases "i < n")
    case True
    then have n: "n - i = Suc (n - Suc i)" by simp
    show ?thesis
      using True 1(1)[OF True test_iteration_eq]
      by (subst test_loop.simps) (simp add: test_iteration_eq n)
  next
    case False
    then show ?thesis by (subst test_loop.simps) simp
  qed
qed

lemma test_loop_locals:
  "fst (test_loop ser clk data vd i n (l, w)) =
     \<lparr>totalBoostSave = totalBoostSave l + total_elapsed clk (clock_reads w) (n - i),
      totalBoostLoad = totalBoostLoad l + total_elapsed clk (clock_reads w + 2) (n - i),
      totalCerealSave = totalCerealSave l + total_elapsed clk (clock_reads w + 4) (n - i),
      totalCerealLoad = totalCerealLoad l + total_elapsed clk (clock_reads w + 6) (n - i),
      boostSize = (if boostSize l = 0 \<and> i < n then length (save (boost ser) data) else boostSize l),
      cerealSize = (if cerealSize l = 0 \<and> i < n then length (save (cereal ser) data) else cerealSize l)\<rparr>"
proof (induction ser clk data vd i n "(l, w)" arbitrary: l w rule: test_loop.induct)
  case (1 ser clk data vd i n)
  show ?case
  proof (cases "i < n")
    case True
    then have n: "n - i = Suc (n - Suc i)" by simp
    show ?thesis
      using True 1(1)[OF True test_iteration_eq]
      by (subst test_loop.simps)
         (simp add: test_iteration_eq n total_elapsed_Suc_shift add.assoc add.commute add.left_commute)
  next
    case False
    then show ?thesis by (subst test_loop.simps) (simp add: total_elapsed_0)
  qed
qed

lemma test_loop_locals_reads:
  "clock_reads w' = clock_reads w \<Longrightarrow>
   fst (test_loop ser clk data vd i n (l, w')) = fst (test_loop ser clk data vd i n (l, w))"
  by (simp add: test_loop_locals)

subsection \<open>What \<open>test\<close> does\<close>

lemma print_simps [simp]:
  "clock_reads (print out w) = clock_reads w"
  "calls (print out w) = calls w"
  "stdout (print out w) = stdout w @ [out]"
  by (simp_all add: print_def)

lemma print_report_eq:
  "print_report l st w = w\<lparr>stdout := stdout w @
     [Text ''  Boost results:'',
      Format save_format [averageBoostSave st, Finite 1,
        double_div (double_of_size (boostSize l)) (Finite 1024), Finite 1,
        double_of_count (totalBoostSave l)],
      Format load_format [averageBoostLoad st, Finite 1, double_of_count (totalBoostLoad l)],
      Text ''  Cereal results:'',
      Format save_format [averageCerealSave st, cerealSaveP st,
        double_div (double_of_size (cerealSize l)) (Finite 1024), cerealSizeP st,
        double_of_count (totalCerealSave l)],
      Format load_format [averageCerealLoad st, cerealLoadP st,
        double_of_count (totalCerealLoad l)]]\<rparr>"
  by (simp add: print_report_def print_def Let_def)

text \<open>\<open>test\<close> in closed form: the loop's effect on the world, the header before it and
  the report after it.\<close>

lemma test_eq:
  "test ser clk name data n vd w =
     (let l = fst (test_loop ser clk data vd 0 n (zero_locals, w))
      in print_report l (test_statistics l n)
           (w\<lparr>clock_reads := clock_reads w + 8 * n,
              calls := calls w @ concat (replicate n (round_trip_calls ser data)),
              stdout := stdout w @ [Text ''-----------------------------------'',
                                    Text (''Running test: '' @ name)]\<rparr>))"
proof -
  let ?w2 = "print (Text (''Running test: '' @ name))
               (print (Text ''-----------------------------------'') w)"
  have l: "fst (test_loop ser clk data vd 0 n (zero_locals, ?w2))
             = fst (test_loop ser clk data vd 0 n (zero_locals, w))"
    by (rule test_loop_locals_reads) simp
  have w: "snd (test_loop ser clk data vd 0 n (zero_locals, ?w2))
             = w\<lparr>clock_reads := clock_reads w + 8 * n,
              calls := calls w @ concat (replicate n (round_trip_calls ser data)),
              stdout := stdout w @ [Text ''-----------------------------------'',
                                    Text (''Running test: '' @ name)]\<rparr>"
    by (cases w) (simp add: test_loop_world print_def)
  show ?thesis
    unfolding test_def Let_def split_def l w ..
qed

lemma test_calls:
  "calls (test ser clk name data n vd w) =
     calls w @ concat (replicate n (round_trip_calls ser data))"
  by (simp add: test_eq print_report_eq Let_def)

lemma test_clock_reads:
  "clock_reads (test ser clk name data n vd w) = clock_reads w + 8 * n"
  by (simp add: test_eq print_report_eq Let_def)

lemma filter_round_trips:
  "length (filter P (concat (replicate n (round_trip_calls ser data)))) =
     n * length (filter P (round_trip_calls ser data))"
  by (induction n) simp_all

lemma saved_payloads_append:
  "saved_payloads (xs @ ys) = saved_payloads xs @ saved_payloads ys"
  by (induction xs rule: saved_payloads.induct) simp_all

lemma saved_payloads_round_trips:
  "saved_payloads (concat (replicate n (round_trip_calls ser data))) = replicate (2 * n) data"
  by (induction n) (simp_all add: saved_payloads_append round_trip_calls_def)

lemma test_ignores_validateData:
  "test ser clk name data n True w = test ser clk name data n False w"
  by (simp add: test_eq test_loop_locals)

lemma statistics_zero_runs:
  "test_statistics zero_locals 0 =
     \<lparr>averageBoostSave = NaN, averageBoostLoad = NaN,
      averageCerealSave = NaN, averageCerealLoad = NaN,
      cerealSaveP = NaN, cerealLoadP = NaN, cerealSizeP = NaN\<rparr>"
  by (simp add: test_statistics_def zero_locals_def double_of_count_def double_of_size_def)

subsection \<open>A repeat count of zero\<close>

text \<open>
  Claim C1, as stated, says that \<open>test\<close> rejects \<open>numAverages = 0\<close> and computes no
  averages. It does not hold: with a repeat count of zero \<open>test\<close> runs to its end and
  prints a report whose averages are the results of \<open>0 / 0.0\<close>.
\<close>

theorem test_zero_repeats_counterexample:
  "test sample_binary sample_clock ''t'' 3 0 False initial_world =
   \<lparr>clock_reads = 0, calls = [],
    stdout = [Text ''-----------------------------------'',
              Text ''Running test: t'',
              Text ''  Boost results:'',
              Format save_format [NaN, Finite 1, Finite 0, Finite 1, Finite 0],
              Format load_format [NaN, Finite 1, Finite 0],
              Text ''  Cereal results:'',
              Format save_format [NaN, NaN, Finite 0, NaN, Finite 0],
              Format load_format [NaN, NaN, Finite 0]]\<rparr>"
  by (simp add: test_eq test_loop_locals total_elapsed_0 print_report_eq statistics_zero_runs
      initial_world_def double_of_count_def double_of_size_def)
     (simp add: zero_locals_def statistics_zero_runs [unfolded zero_locals_def])

text \<open>
  Claim C1, amended: for \<open>numAverages = 0\<close> the harness does not reject the call. The
  loop body never runs (the clock is not read and no library is called), every total and
  size stays 0, each average is computed as \<open>0 / 0.0\<close>, which is NaN, the ratios are NaN
  as well, and the report is printed as for any other count.
\<close>

theorem test_zero_repeats_runs:
  "test ser clk name data 0 vd w =
     w\<lparr>stdout := stdout w @
        [Text ''-----------------------------------'',
         Text (''Running test: '' @ name),
         Text ''  Boost results:'',
         Format save_format [NaN, Finite 1, Finite 0, Finite 1, Finite 0],
         Format load_format [NaN, Finite 1, Finite 0],
         Text ''  Cereal results:'',
         Format save_format [NaN, NaN, Finite 0, NaN, Finite 0],
         Format load_format [NaN, NaN, Finite 0]]\<rparr> \<and>
   averageBoostSave (test_statistics zero_locals 0) =
     double_div (double_of_count (totalBoostSave zero_locals)) (Finite 0) \<and>
   averageBoostSave (test_statistics zero_locals 0) = NaN"
proof -
  have l: "fst (test_loop ser clk data vd 0 0 (zero_locals, w)) = zero_locals"
    by (simp add: test_loop_locals total_elapsed_0 zero_locals_def)
  have "test ser clk name data 0 vd w =
     w\<lparr>stdout := stdout w @
        [Text ''-----------------------------------'',
         Text (''Running test: '' @ name),
         Text ''  Boost results:'',
         Format save_format [NaN, Finite 1, Finite 0, Finite 1, Finite 0],
         Format load_format [NaN, Finite 1, Finite 0],
         Text ''  Cereal results:'',
         Format save_format [NaN, NaN, Finite 0, NaN, Finite 0],
         Format load_format [NaN, NaN, Finite 0]]\<rparr>"
    unfolding test_eq Let_def l print_report_eq statistics_zero_runs
    by (cases w) (simp add: zero_locals_def double_of_count_def double_of_size_def)
  moreover have "averageBoostSave (test_statistics zero_locals 0) =
     double_div (double_of_count (totalBoostSave zero_locals)) (Finite 0)"
    by (simp add: test_statistics_def double_of_size_def Let_def)
  ultimately show ?thesis
    by (simp add: statistics_zero_runs)
qed

subsection \<open>Calls into the libraries\<close>

text \<open>
  Claim C5: one call of \<open>test\<close> with \<open>numAverages = N\<close> invokes boost's save exactly
  \<open>N\<close> times and its load exactly \<open>N\<close> times, and likewise cereal's save and load.
  This holds for every \<open>N\<close>, so in particular for every \<open>N > 0\<close>.
\<close>

theorem test_call_counts:
  "length (filter (is_save Boost) (calls (test ser clk name data N vd w))) =
     length (filter (is_save Boost) (calls w)) + N \<and>
   length (filter (is_load Boost) (calls (test ser clk name data N vd w))) =
     length (filter (is_load Boost) (calls w)) + N \<and>
   length (filter (is_save Cereal) (calls (test ser clk name data N vd w))) =
     length (filter (is_save Cereal) (calls w)) + N \<and>
   length (filter (is_load Cereal) (calls (test ser clk name data N vd w))) =
     length (filter (is_load Cereal) (calls w)) + N"
  by (simp add: test_calls filter_round_trips) (simp add: round_trip_calls_def)

text \<open>
  Claim C7: the harness never changes the payload. Every save call of a run, for either
  library and in every iteration, is given the payload that was passed to \<open>test\<close>,
  whatever the loads in between return.
\<close>

theorem test_saves_same_payload:
  "saved_payloads (calls (test ser clk name data N vd w)) =
     saved_payloads (calls w) @ replicate (2 * N) data"
  by (simp add: test_calls saved_payloads_append saved_payloads_round_trips)

subsection \<open>The recorded sizes\<close>

text \<open>
  Claim C4: for every payload and every \<open>numAverages \<ge> 1\<close>, the size recorded for a
  library is the size of the stream its save has written in the first iteration; the
  iterations after the first leave the recorded value as it is. The guard in the source
  is \<open>if(!boostSize)\<close>, not a test for the first iteration: a size that is not zero is
  never overwritten, from whatever accumulators and index the loop starts; and a size
  of zero is recorded again, with the same value, since a save writes the same bytes
  for the same payload.
\<close>

theorem test_size_from_first_iteration:
  assumes "1 \<le> N"
  shows "boostSize (fst (test_loop ser clk data vd 0 N (zero_locals, w))) =
           boostSize (fst (test_iteration ser clk data vd (zero_locals, w))) \<and>
         boostSize (fst (test_iteration ser clk data vd (zero_locals, w))) =
           length (fst (archive_save Boost (boost ser) [] data w)) \<and>
         cerealSize (fst (test_loop ser clk data vd 0 N (zero_locals, w))) =
           cerealSize (fst (test_iteration ser clk data vd (zero_locals, w))) \<and>
         cerealSize (fst (test_iteration ser clk data vd (zero_locals, w))) =
           length (fst (archive_save Cereal (cereal ser) [] data w)) \<and>
         (\<forall>l i. boostSize l \<noteq> 0 \<longrightarrow>
            boostSize (fst (test_loop ser clk data vd i N (l, w))) = boostSize l) \<and>
         (\<forall>l i. cerealSize l \<noteq> 0 \<longrightarrow>
            cerealSize (fst (test_loop ser clk data vd i N (l, w))) = cerealSize l)"
  using assms
  by (simp add: test_loop_locals test_iteration_eq zero_locals_def archive_save_def)

theorem test_size_from_first_iteration_witness:
  "1 \<le> (3::nat) \<and>
   boostSize (fst (test_loop sample_binary sample_clock 5 False 0 3 (zero_locals, initial_world))) = 5 \<and>
   cerealSize (fst (test_loop sample_binary sample_clock 5 False 0 3 (zero_locals, initial_world))) = 5 \<and>
   boostSize (fst (test_loop sample_binary sample_clock 5 False 0 3
     (zero_locals\<lparr>boostSize := 7, cerealSize := 9\<rparr>, initial_world))) = 7 \<and>
   cerealSize (fst (test_loop sample_binary sample_clock 5 False 0 3
     (zero_locals\<lparr>boostSize := 7, cerealSize := 9\<rparr>, initial_world))) = 9"
proof -
  have pos: "1 \<le> (3::nat)" by simp
  note inst = test_size_from_first_iteration [OF pos, where ser = sample_binary
      and clk = sample_clock and data = "5::nat" and vd = False and w = initial_world]
  have first: "boostSize (fst (test_loop sample_binary sample_clock 5 False 0 3
        (zero_locals, initial_world))) = 5"
      "cerealSize (fst (test_loop sample_binary sample_clock 5 False 0 3
        (zero_locals, initial_world))) = 5"
    using inst
    by (simp_all add: archive_save_def sample_binary_def length_archive_def lossy_archive_def)
  have kept_boost: "\<forall>l i. boostSize l \<noteq> 0 \<longrightarrow>
      boostSize (fst (test_loop sample_binary sample_clock 5 False i 3 (l, initial_world)))
        = boostSize l"
    by (insert inst, elim conjE, assumption)
  have kept_cereal: "\<forall>l i. cerealSize l \<noteq> 0 \<longrightarrow>
      cerealSize (fst (test_loop sample_binary sample_clock 5 False i 3 (l, initial_world)))
        = cerealSize l"
    by (insert inst, elim conjE, assumption)
  have "boostSize (fst (test_loop sample_binary sample_clock 5 False 0 3
     (zero_locals\<lparr>boostSize := 7, cerealSize := 9\<rparr>, initial_world))) = 7"
    using kept_boost [rule_format, of "zero_locals\<lparr>boostSize := 7, cerealSize := 9\<rparr>" 0]
    by simp
  moreover have "cerealSize (fst (test_loop sample_binary sample_clock 5 False 0 3
     (zero_locals\<lparr>boostSize := 7, cerealSize := 9\<rparr>, initial_world))) = 9"
    using kept_cereal [rule_format, of "zero_locals\<lparr>boostSize := 7, cerealSize := 9\<rparr>" 0]
    by simp
  ultimately show ?thesis using pos first by (intro conjI)
qed

subsection \<open>The sample inputs, evaluated\<close>

lemma elapsed_sample_clock:
  "elapsed sample_clock 0 = 1" "elapsed sample_clock 2 = 1"
  "elapsed sample_clock 4 = 2" "elapsed sample_clock 6 = 2"
  "elapsed sample_clock 8 = 1" "elapsed sample_clock 10 = 1"
  "elapsed sample_clock 12 = 2" "elapsed sample_clock 14 = 2"
  by (simp_all add: elapsed_def sample_clock_def duration_cast_ms_def)

lemma total_elapsed_1: "total_elapsed clk r (Suc 0) = elapsed clk r"
  by (simp add: total_elapsed_def)

lemma total_elapsed_2: "total_elapsed clk r 2 = elapsed clk r + elapsed clk (r + 8)"
  by (simp add: total_elapsed_def numeral_2_eq_2)

lemma sample_clock_totals:
  "total_elapsed sample_clock 0 (Suc 0) = 1" "total_elapsed sample_clock 2 (Suc 0) = 1"
  "total_elapsed sample_clock 4 (Suc 0) = 2" "total_elapsed sample_clock 6 (Suc 0) = 2"
  "total_elapsed sample_clock 0 2 = 2" "total_elapsed sample_clock 2 2 = 2"
  "total_elapsed sample_clock 4 2 = 4" "total_elapsed sample_clock 6 2 = 4"
  by (simp_all add: total_elapsed_1 total_elapsed_2 elapsed_sample_clock)

lemma frozen_clock_total: "total_elapsed frozen_clock r n = 0"
  by (induction n arbitrary: r)
     (simp_all add: total_elapsed_0 total_elapsed_Suc_shift elapsed_def frozen_clock_def
      duration_cast_ms_def)

lemma replicate_3: "replicate 3 x = [x, x, x]"
  by (simp add: numeral_3_eq_3)

lemma sample_run_locals:
  "fst (test_loop sample_binary sample_clock 3 vd 0 1 (zero_locals, initial_world)) =
     \<lparr>totalBoostSave = 1, totalBoostLoad = 1, totalCerealSave = 2, totalCerealLoad = 2,
      boostSize = 3, cerealSize = 3\<rparr>"
  by (simp add: test_loop_locals zero_locals_def initial_world_def sample_clock_totals
      sample_binary_def length_archive_def lossy_archive_def
      del: add_2_eq_Suc add_2_eq_Suc')

lemma sample_run_2_locals:
  "fst (test_loop sample_binary sample_clock 3 vd 0 2 (zero_locals, initial_world)) =
     \<lparr>totalBoostSave = 2, totalBoostLoad = 2, totalCerealSave = 4, totalCerealLoad = 4,
      boostSize = 3, cerealSize = 3\<rparr>"
  by (simp add: test_loop_locals zero_locals_def initial_world_def sample_clock_totals
      sample_binary_def length_archive_def lossy_archive_def
      del: add_2_eq_Suc add_2_eq_Suc')

lemma frozen_run_locals:
  "fst (test_loop ser frozen_clock data vd 0 1 (zero_locals, initial_world)) =
     \<lparr>totalBoostSave = 0, totalBoostLoad = 0, totalCerealSave = 0, totalCerealLoad = 0,
      boostSize = length (save (boost ser) data), cerealSize = length (save (cereal ser) data)\<rparr>"
  by (simp add: test_loop_locals zero_locals_def frozen_clock_total)

lemma total_elapsed_3:
  "total_elapsed clk r 3 = elapsed clk r + elapsed clk (r + 8) + elapsed clk (r + 16)"
  by (simp add: total_elapsed_def numeral_3_eq_3)

lemma uneven_clock_totals:
  "total_elapsed uneven_clock 0 3 = 1" "total_elapsed uneven_clock 2 3 = 0"
  "total_elapsed uneven_clock 4 3 = 5" "total_elapsed uneven_clock 6 3 = 0"
  by (simp_all add: total_elapsed_3 elapsed_def uneven_clock_def duration_cast_ms_def)

lemma uneven_run_locals:
  "fst (test_loop sample_binary uneven_clock 3 vd 0 3 (zero_locals, initial_world)) =
     \<lparr>totalBoostSave = 1, totalBoostLoad = 0, totalCerealSave = 5, totalCerealLoad = 0,
      boostSize = 3, cerealSize = 3\<rparr>"
  by (simp add: test_loop_locals zero_locals_def initial_world_def uneven_clock_totals
      sample_binary_def length_archive_def lossy_archive_def
      del: add_2_eq_Suc add_2_eq_Suc')

subsection \<open>The averages and the ratios\<close>

lemma statistics_positive_count:
  "0 < N \<Longrightarrow>
   averageBoostSave (test_statistics l N) =
     Finite (round_double (round_double (real_of_int (totalBoostSave l)) / round_double (real N))) \<and>
   averageBoostLoad (test_statistics l N) =
     Finite (round_double (round_double (real_of_int (totalBoostLoad l)) / round_double (real N))) \<and>
   averageCerealSave (test_statistics l N) =
     Finite (round_double (round_double (real_of_int (totalCerealSave l)) / round_double (real N))) \<and>
   averageCerealLoad (test_statistics l N) =
     Finite (round_double (round_double (real_of_int (totalCerealLoad l)) / round_double (real N)))"
  by (simp add: test_statistics_def Let_def double_of_count_def double_of_size_def)

lemma statistics_ratios:
  "cerealSaveP (test_statistics l N) =
     double_div (averageCerealSave (test_statistics l N)) (averageBoostSave (test_statistics l N))"
  "cerealLoadP (test_statistics l N) =
     double_div (averageCerealLoad (test_statistics l N)) (averageBoostLoad (test_statistics l N))"
  "cerealSizeP (test_statistics l N) =
     double_div (double_of_size (cerealSize l)) (double_of_size (boostSize l))"
  by (simp_all add: test_statistics_def Let_def)

text \<open>On the third clock and with three repetitions the averages are \<open>1/3\<close> and
  \<open>5/3\<close>, rounded, and their ratio is the \<open>double\<close> next above 5.\<close>

lemma uneven_run_statistics:
  "averageBoostSave (test_statistics
     (fst (test_loop sample_binary uneven_clock 3 False 0 3 (zero_locals, initial_world))) 3)
     = Finite (6004799503160661 / 2 ^ 54)"
  "averageCerealSave (test_statistics
     (fst (test_loop sample_binary uneven_clock 3 False 0 3 (zero_locals, initial_world))) 3)
     = Finite (7505999378950827 / 2 ^ 52)"
  "cerealSaveP (test_statistics
     (fst (test_loop sample_binary uneven_clock 3 False 0 3 (zero_locals, initial_world))) 3)
     = Finite (5629499534213121 / 2 ^ 50)"
proof -
  let ?st = "test_statistics
     (fst (test_loop sample_binary uneven_clock 3 False 0 3 (zero_locals, initial_world))) 3"
  show boost: "averageBoostSave ?st = Finite (6004799503160661 / 2 ^ 54)"
    unfolding uneven_run_locals
    by (simp add: test_statistics_def Let_def double_of_count_def double_of_size_def
        rounding_examples)
  show cereal: "averageCerealSave ?st = Finite (7505999378950827 / 2 ^ 52)"
    unfolding uneven_run_locals
    by (simp add: test_statistics_def Let_def double_of_count_def double_of_size_def
        rounding_examples)
  have "double_div (Finite (7505999378950827 / 2 ^ 52)) (Finite (6004799503160661 / 2 ^ 54)) =
      Finite (5629499534213121 / 2 ^ 50)"
    by (subst double_div.simps, subst rounding_examples(3)) simp
  then show "cerealSaveP ?st = Finite (5629499534213121 / 2 ^ 50)"
    unfolding statistics_ratios(1) boost cereal .
qed

text \<open>
  Claim C6, as stated, ends: if the average save time of boost is \<open>T\<close> and that of
  cereal is \<open>2T\<close>, the reported save ratio is 2.0. That fails for \<open>T = 0\<close>, which is
  what the harness measures whenever every save takes less than a millisecond: both
  averages are 0 and the ratio is \<open>0 / 0\<close>, not 2.
\<close>

theorem test_ratio_two_counterexample:
  "averageBoostSave (test_statistics
      (fst (test_loop sample_binary frozen_clock 3 False 0 1 (zero_locals, initial_world))) 1)
     = Finite 0 \<and>
   averageCerealSave (test_statistics
      (fst (test_loop sample_binary frozen_clock 3 False 0 1 (zero_locals, initial_world))) 1)
     = Finite (2 * 0) \<and>
   cerealSaveP (test_statistics
      (fst (test_loop sample_binary frozen_clock 3 False 0 1 (zero_locals, initial_world))) 1)
     \<noteq> Finite 2"
  unfolding frozen_run_locals
  by (simp add: test_statistics_def Let_def double_of_count_def double_of_size_def)

text \<open>
  Claim C6, amended: for every \<open>numAverages = N > 0\<close> each total is the sum of the
  \<open>N\<close> measurements of its kind, each reported average is its total divided by \<open>N\<close>
  in the arithmetic of \<open>double\<close> (total and \<open>N\<close> converted to \<open>double\<close>, the quotient
  rounded), and the three reported ratios are the quotients average cereal save /
  average boost save, average cereal load / average boost load and cereal size / boost
  size, in the same arithmetic. In particular, if the average save time of boost is
  \<open>T \<noteq> 0\<close> and that of cereal is \<open>2T\<close>, the reported save ratio is exactly 2. These
  are the values \<open>test\<close> prints.
\<close>

theorem test_averages_and_ratios:
  assumes "0 < N"
  shows "let l = fst (test_loop ser clk data vd 0 N (zero_locals, w));
             st = test_statistics l N
         in totalBoostSave l = total_elapsed clk (clock_reads w) N \<and>
            totalBoostLoad l = total_elapsed clk (clock_reads w + 2) N \<and>
            totalCerealSave l = total_elapsed clk (clock_reads w + 4) N \<and>
            totalCerealLoad l = total_elapsed clk (clock_reads w + 6) N \<and>
            averageBoostSave st =
              Finite (round_double (round_double (real_of_int (totalBoostSave l)) / round_double (real N))) \<and>
            averageBoostLoad st =
              Finite (round_double (round_double (real_of_int (totalBoostLoad l)) / round_double (real N))) \<and>
            averageCerealSave st =
              Finite (round_double (round_double (real_of_int (totalCerealSave l)) / round_double (real N))) \<and>
            averageCerealLoad st =
              Finite (round_double (round_double (real_of_int (totalCerealLoad l)) / round_double (real N))) \<and>
            cerealSaveP st = double_div (averageCerealSave st) (averageBoostSave st) \<and>
            cerealLoadP st = double_div (averageCerealLoad st) (averageBoostLoad st) \<and>
            cerealSizeP st = double_div (double_of_size (cerealSize l)) (double_of_size (boostSize l)) \<and>
            (\<forall>T. T \<noteq> 0 \<and> averageBoostSave st = Finite T \<and> averageCerealSave st = Finite (2 * T)
               \<longrightarrow> cerealSaveP st = Finite 2) \<and>
            test ser clk name data N vd w =
              print_report l st
                (w\<lparr>clock_reads := clock_reads w + 8 * N,
                   calls := calls w @ concat (replicate N (round_trip_calls ser data)),
                   stdout := stdout w @ [Text ''-----------------------------------'',
                                         Text (''Running test: '' @ name)]\<rparr>)"
proof -
  define l where "l = fst (test_loop ser clk data vd 0 N (zero_locals, w))"
  define st where "st = test_statistics l N"
  have totals:
    "totalBoostSave l = total_elapsed clk (clock_reads w) N"
    "totalBoostLoad l = total_elapsed clk (clock_reads w + 2) N"
    "totalCerealSave l = total_elapsed clk (clock_reads w + 4) N"
    "totalCerealLoad l = total_elapsed clk (clock_reads w + 6) N"
    by (simp_all add: l_def test_loop_locals zero_locals_def)
  have averages:
    "averageBoostSave st =
              Finite (round_double (round_double (real_of_int (totalBoostSave l)) / round_double (real N)))"
    "averageBoostLoad st =
              Finite (round_double (round_double (real_of_int (totalBoostLoad l)) / round_double (real N)))"
    "averageCerealSave st =
              Finite (round_double (round_double (real_of_int (totalCerealSave l)) / round_double (real N)))"
    "averageCerealLoad st =
              Finite (round_double (round_double (real_of_int (totalCerealLoad l)) / round_double (real N)))"
    using statistics_positive_count [OF assms, of l] by (simp_all add: st_def)
  have ratios:
    "cerealSaveP st = double_div (averageCerealSave st) (averageBoostSave st)"
    "cerealLoadP st = double_div (averageCerealLoad st) (averageBoostLoad st)"
    "cerealSizeP st = double_div (double_of_size (cerealSize l)) (double_of_size (boostSize l))"
    by (simp_all add: st_def statistics_ratios)
  have two: "cerealSaveP st = Finite 2"
    if "T \<noteq> 0" "averageBoostSave st = Finite T" "averageCerealSave st = Finite (2 * T)" for T
    using that by (simp add: ratios(1))
  have printed: "test ser clk name data N vd w =
              print_report l st
                (w\<lparr>clock_reads := clock_reads w + 8 * N,
                   calls := calls w @ concat (replicate N (round_trip_calls ser data)),
                   stdout := stdout w @ [Text ''-----------------------------------'',
                                         Text (''Running test: '' @ name)]\<rparr>)"
    by (simp add: test_eq Let_def l_def st_def)
  have two': "\<forall>T. T \<noteq> 0 \<and> averageBoostSave st = Finite T \<and> averageCerealSave st = Finite (2 * T)
               \<longrightarrow> cerealSaveP st = Finite 2"
    by (intro allI impI) (elim conjE, rule two)
  show ?thesis
    unfolding Let_def l_def [symmetric] st_def [symmetric]
    by (intro conjI) (rule totals averages ratios two' printed)+
qed

theorem test_averages_and_ratios_witness:
  "0 < (2::nat) \<and>
   averageBoostSave (test_statistics
     (fst (test_loop sample_binary sample_clock 3 False 0 2 (zero_locals, initial_world))) 2)
     = Finite 1 \<and>
   averageCerealSave (test_statistics
     (fst (test_loop sample_binary sample_clock 3 False 0 2 (zero_locals, initial_world))) 2)
     = Finite (2 * 1) \<and>
   cerealSaveP (test_statistics
     (fst (test_loop sample_binary sample_clock 3 False 0 2 (zero_locals, initial_world))) 2)
     = Finite 2 \<and>
   0 < (3::nat) \<and>
   averageBoostSave (test_statistics
     (fst (test_loop sample_binary uneven_clock 3 False 0 3 (zero_locals, initial_world))) 3)
     = Finite (6004799503160661 / 2 ^ 54) \<and>
   averageCerealSave (test_statistics
     (fst (test_loop sample_binary uneven_clock 3 False 0 3 (zero_locals, initial_world))) 3)
     = Finite (7505999378950827 / 2 ^ 52)"
proof -
  have pos: "0 < (2::nat)" by simp
  note inst = test_averages_and_ratios [OF pos, where ser = sample_binary and clk = sample_clock
      and data = "3::nat" and vd = False and w = initial_world, unfolded Let_def]
  have avgB: "averageBoostSave (test_statistics
     (fst (test_loop sample_binary sample_clock 3 False 0 2 (zero_locals, initial_world))) 2)
     = Finite 1"
    using inst by (simp add: sample_run_2_locals)
  have avgC: "averageCerealSave (test_statistics
     (fst (test_loop sample_binary sample_clock 3 False 0 2 (zero_locals, initial_world))) 2)
     = Finite (2 * 1)"
    using inst by (simp add: sample_run_2_locals)
  have rule_of_two: "\<forall>T. T \<noteq> 0 \<and>
     averageBoostSave (test_statistics
       (fst (test_loop sample_binary sample_clock 3 False 0 2 (zero_locals, initial_world))) 2)
       = Finite T \<and>
     averageCerealSave (test_statistics
       (fst (test_loop sample_binary sample_clock 3 False 0 2 (zero_locals, initial_world))) 2)
       = Finite (2 * T) \<longrightarrow>
     cerealSaveP (test_statistics
       (fst (test_loop sample_binary sample_clock 3 False 0 2 (zero_locals, initial_world))) 2)
       = Finite 2"
    by (insert inst [where name = "''t''"], elim conjE, assumption)
  have ratio: "cerealSaveP (test_statistics
     (fst (test_loop sample_binary sample_clock 3 False 0 2 (zero_locals, initial_world))) 2)
     = Finite 2"
    using rule_of_two [rule_format, of 1] avgB avgC by simp
  have pos3: "0 < (3::nat)" by simp
  note inst3 = test_averages_and_ratios [OF pos3, where ser = sample_binary
      and clk = uneven_clock and data = "3::nat" and vd = False and w = initial_world
      and name = "''t''", unfolded Let_def]
  have third: "averageBoostSave (test_statistics
     (fst (test_loop sample_binary uneven_clock 3 False 0 3 (zero_locals, initial_world))) 3)
     = Finite (6004799503160661 / 2 ^ 54)"
    using inst3 unfolding uneven_run_locals by (simp add: rounding_examples)
  have five_thirds: "averageCerealSave (test_statistics
     (fst (test_loop sample_binary uneven_clock 3 False 0 3 (zero_locals, initial_world))) 3)
     = Finite (7505999378950827 / 2 ^ 52)"
    using inst3 unfolding uneven_run_locals by (simp add: rounding_examples)
  from pos avgB avgC ratio pos3 third five_thirds show ?thesis by (intro conjI)
qed

text \<open>
  Claim C3, as stated, says that the three ratios are guarded against a zero baseline.
  They are not: when boost's save and load times are measured as 0 ms and its stream is
  empty, \<open>test\<close> divides all the same and reports NaN, NaN and an infinity.
\<close>

theorem test_unguarded_ratios_counterexample:
  "test \<lparr>boost = empty_archive, cereal = length_archive\<rparr> frozen_clock ''t'' 3 1 False
     initial_world =
   \<lparr>clock_reads = 8,
    calls = [Save Boost 3, Load Boost [], Save Cereal 3, Load Cereal [0, 0, 0]],
    stdout = [Text ''-----------------------------------'',
              Text ''Running test: t'',
              Text ''  Boost results:'',
              Format save_format [Finite 0, Finite 1, Finite 0, Finite 1, Finite 0],
              Format load_format [Finite 0, Finite 1, Finite 0],
              Text ''  Cereal results:'',
              Format save_format [Finite 0, NaN, Finite (3 / 1024), PosInf, Finite 0],
              Format load_format [Finite 0, NaN, Finite 0]]\<rparr>"
  unfolding test_eq Let_def frozen_run_locals
  by (simp add: print_report_eq test_statistics_def Let_def initial_world_def
      round_trip_calls_def empty_archive_def length_archive_def
      double_of_count_def double_of_size_def replicate_3)

text \<open>
  Claim C3, amended: the three ratios are not guarded. \<open>test\<close> always evaluates the
  three divisions. Where the measurement of boost is zero, the reported ratio is NaN if
  the measurement of cereal is zero too, and otherwise plus or minus infinity, by the
  sign of the measurement of cereal.
\<close>

theorem test_ratios_unguarded:
  assumes "0 < N"
  shows "let l = fst (test_loop ser clk data vd 0 N (zero_locals, w));
             st = test_statistics l N
         in cerealSaveP st = double_div (averageCerealSave st) (averageBoostSave st) \<and>
            cerealLoadP st = double_div (averageCerealLoad st) (averageBoostLoad st) \<and>
            cerealSizeP st = double_div (double_of_size (cerealSize l)) (double_of_size (boostSize l)) \<and>
            (averageBoostSave st = Finite 0 \<longrightarrow>
               cerealSaveP st = (if totalCerealSave l = 0 then NaN
                                 else if 0 < totalCerealSave l then PosInf else NegInf)) \<and>
            (averageBoostLoad st = Finite 0 \<longrightarrow>
               cerealLoadP st = (if totalCerealLoad l = 0 then NaN
                                 else if 0 < totalCerealLoad l then PosInf else NegInf)) \<and>
            (boostSize l = 0 \<longrightarrow>
               cerealSizeP st = (if cerealSize l = 0 then NaN else PosInf))"
proof -
  define l where "l = fst (test_loop ser clk data vd 0 N (zero_locals, w))"
  define st where "st = test_statistics l N"
  note averages = statistics_positive_count [OF assms, of l, folded st_def]
  have ratios:
    "cerealSaveP st = double_div (averageCerealSave st) (averageBoostSave st)"
    "cerealLoadP st = double_div (averageCerealLoad st) (averageBoostLoad st)"
    "cerealSizeP st = double_div (double_of_size (cerealSize l)) (double_of_size (boostSize l))"
    by (simp_all add: st_def statistics_ratios)
  have save: "cerealSaveP st = (if totalCerealSave l = 0 then NaN
                                 else if 0 < totalCerealSave l then PosInf else NegInf)"
    if "averageBoostSave st = Finite 0"
    using that assms averages by (simp add: ratios(1) zero_less_divide_iff)
  have load: "cerealLoadP st = (if totalCerealLoad l = 0 then NaN
                                 else if 0 < totalCerealLoad l then PosInf else NegInf)"
    if "averageBoostLoad st = Finite 0"
    using that assms averages by (simp add: ratios(2) zero_less_divide_iff)
  have size: "cerealSizeP st = (if cerealSize l = 0 then NaN else PosInf)"
    if "boostSize l = 0"
    using that by (simp add: ratios(3) double_of_size_def)
  show ?thesis
    unfolding Let_def l_def [symmetric] st_def [symmetric]
    by (intro conjI impI) (rule ratios save load size, assumption?)+
qed

theorem test_ratios_unguarded_witness:
  "0 < (1::nat) \<and>
   averageBoostSave (test_statistics (fst (test_loop \<lparr>boost = empty_archive, cereal = length_archive\<rparr>
      frozen_clock 3 False 0 1 (zero_locals, initial_world))) 1) = Finite 0 \<and>
   cerealSaveP (test_statistics (fst (test_loop \<lparr>boost = empty_archive, cereal = length_archive\<rparr>
      frozen_clock 3 False 0 1 (zero_locals, initial_world))) 1) = NaN \<and>
   averageBoostLoad (test_statistics (fst (test_loop \<lparr>boost = empty_archive, cereal = length_archive\<rparr>
      frozen_clock 3 False 0 1 (zero_locals, initial_world))) 1) = Finite 0 \<and>
   cerealLoadP (test_statistics (fst (test_loop \<lparr>boost = empty_archive, cereal = length_archive\<rparr>
      frozen_clock 3 False 0 1 (zero_locals, initial_world))) 1) = NaN \<and>
   boostSize (fst (test_loop \<lparr>boost = empty_archive, cereal = length_archive\<rparr>
      frozen_clock 3 False 0 1 (zero_locals, initial_world))) = 0 \<and>
   cerealSizeP (test_statistics (fst (test_loop \<lparr>boost = empty_archive, cereal = length_archive\<rparr>
      frozen_clock 3 False 0 1 (zero_locals, initial_world))) 1) = PosInf"
proof -
  let ?ser = "\<lparr>boost = empty_archive, cereal = length_archive\<rparr>"
  let ?l = "fst (test_loop ?ser frozen_clock 3 False 0 1 (zero_locals, initial_world))"
  let ?st = "test_statistics ?l 1"
  have pos: "0 < (1::nat)" by simp
  note inst = test_ratios_unguarded [OF pos, where ser = ?ser and clk = frozen_clock
      and data = "3::nat" and vd = False and w = initial_world, unfolded Let_def]
  have save: "averageBoostSave ?st = Finite 0 \<longrightarrow>
      cerealSaveP ?st = (if totalCerealSave ?l = 0 then NaN
                         else if 0 < totalCerealSave ?l then PosInf else NegInf)"
    by (insert inst, elim conjE, assumption)
  have load: "averageBoostLoad ?st = Finite 0 \<longrightarrow>
      cerealLoadP ?st = (if totalCerealLoad ?l = 0 then NaN
                         else if 0 < totalCerealLoad ?l then PosInf else NegInf)"
    by (insert inst, elim conjE, assumption)
  have size: "boostSize ?l = 0 \<longrightarrow>
      cerealSizeP ?st = (if cerealSize ?l = 0 then NaN else PosInf)"
    by (insert inst, elim conjE, assumption)
  have l: "?l = \<lparr>totalBoostSave = 0, totalBoostLoad = 0, totalCerealSave = 0,
      totalCerealLoad = 0, boostSize = 0, cerealSize = 3\<rparr>"
    unfolding frozen_run_locals by (simp add: empty_archive_def length_archive_def)
  have zero: "averageBoostSave ?st = Finite 0" "averageBoostLoad ?st = Finite 0" "boostSize ?l = 0"
    unfolding l
    by (simp_all add: test_statistics_def Let_def double_of_count_def double_of_size_def)
  have "cerealSaveP ?st = NaN" "cerealLoadP ?st = NaN" "cerealSizeP ?st = PosInf"
    using save load size zero unfolding l by simp_all
  with pos zero show ?thesis by (intro conjI)
qed

subsection \<open>Validation\<close>

text \<open>
  Claim C2: with \<open>validateData\<close> set, \<open>test\<close> is to compare each loaded payload with
  the original and fail on a difference. The source documents the parameter so
  (``whether data should be validated (input == output)''), but the statement under
  \<open>if( validateData )\<close> is empty. Here cereal's stand-in loads 0 where 3 was saved; with
  \<open>validateData\<close> set, \<open>test\<close> still runs to its end and prints the same report as
  without.
\<close>

theorem test_validation_missing:
  "load (cereal sample_binary) (save (cereal sample_binary) 3) \<noteq> 3 \<and>
   test sample_binary sample_clock ''t'' 3 1 True initial_world =
     test sample_binary sample_clock ''t'' 3 1 False initial_world \<and>
   test sample_binary sample_clock ''t'' 3 1 True initial_world =
     \<lparr>clock_reads = 8,
      calls = [Save Boost 3, Load Boost [0, 0, 0], Save Cereal 3, Load Cereal [0, 0, 0]],
      stdout = [Text ''-----------------------------------'',
                Text ''Running test: t'',
                Text ''  Boost results:'',
                Format save_format [Finite 1, Finite 1, Finite (3 / 1024), Finite 1, Finite 1],
                Format load_format [Finite 1, Finite 1, Finite 1],
                Text ''  Cereal results:'',
                Format save_format [Finite 2, Finite 2, Finite (3 / 1024), Finite 1, Finite 2],
                Format load_format [Finite 2, Finite 2, Finite 2]]\<rparr>"
  unfolding test_ignores_validateData test_eq Let_def sample_run_locals
  by (simp add: print_report_eq test_statistics_def Let_def initial_world_def
      round_trip_calls_def sample_binary_def length_archive_def lossy_archive_def
      double_of_count_def double_of_size_def replicate_3)

subsection \<open>Random strings\<close>

lemma assign_each_draws:
  "assign_each (\<lambda>g. let (x, g1) = draw distribution g in (f x, g1)) xs gen =
     (map f (draw_values distribution (length xs) (engine gen)),
      \<lparr>engine = engine_after distribution (length xs) (engine gen),
       draws = draws gen + length xs\<rparr>)"
  by (induction xs arbitrary: gen) (simp_all add: draw_def split_def Let_def)

lemma draw_values_length: "length (draw_values distribution n e) = n"
  by (induction n arbitrary: e) simp_all

lemma draw_values_range:
  assumes "\<And>e. P (fst (distribution e))"
  shows "\<forall>x \<in> set (draw_values distribution n e). P x"
  by (induction n arbitrary: e) (simp_all add: assms)

text \<open>
  Claim C9: for every generator state, the string \<open>random_value\<close> produces has a
  length drawn from the uniform distribution on \<open>[3, 30]\<close>, and each of its characters
  is drawn from the uniform distribution on \<open>[0x20, 0x7E]\<close>. In the model: the length is
  the value \<open>uniform_int_distribution(3, 30)\<close> yields from the generator's state, the
  characters are the values \<open>uniform_int_distribution(0x20, 0x7E)\<close> yields from the
  states that follow, one draw per character, and all of them lie in the range of their
  distribution. That a distribution stays within its bounds (and is uniform there) is
  the standard library's contract, here the hypothesis.
\<close>

theorem random_value_string_draws:
  assumes contract: "\<forall>lo hi e. lo \<le> hi \<longrightarrow>
      lo \<le> fst (uniform_int_distribution R lo hi e) \<and>
      fst (uniform_int_distribution R lo hi e) \<le> hi"
  shows "let n = fst (uniform_int_distribution R 3 30 (engine gen));
             e1 = snd (uniform_int_distribution R 3 30 (engine gen));
             xs = draw_values (uniform_int_distribution R 0x20 0x7E) (nat n) e1;
             (s, gen') = random_value_string R gen
         in 3 \<le> n \<and> n \<le> 30 \<and> int (length s) = n \<and>
            s = map char_of xs \<and>
            (\<forall>x \<in> set xs. 0x20 \<le> x \<and> x \<le> 0x7E) \<and>
            (\<forall>ch \<in> set s. (0x20::nat) \<le> of_char ch \<and> of_char ch \<le> (0x7E::nat)) \<and>
            draws gen' = draws gen + 1 + nat n"
proof -
  define n where "n = fst (uniform_int_distribution R 3 30 (engine gen))"
  define e1 where "e1 = snd (uniform_int_distribution R 3 30 (engine gen))"
  define xs where "xs = draw_values (uniform_int_distribution R 0x20 0x7E) (nat n) e1"
  have n: "3 \<le> n" "n \<le> 30"
    using contract [rule_format, of 3 30 "engine gen"] by (simp_all add: n_def)
  have xs: "\<forall>x \<in> set xs. 0x20 \<le> x \<and> x \<le> 0x7E"
    unfolding xs_def
    by (rule draw_values_range) (use contract [rule_format, of "0x20" "0x7E"] in simp)
  have run: "random_value_string R gen =
      (map char_of xs, \<lparr>engine = engine_after (uniform_int_distribution R 0x20 0x7E) (nat n) e1,
                        draws = draws gen + 1 + nat n\<rparr>)"
    unfolding random_value_string_def assign_each_draws
    by (simp add: draw_def split_def Let_def n_def e1_def xs_def)
  have len: "int (length (map char_of xs :: string)) = n"
    using n by (simp add: xs_def draw_values_length)
  have chars: "\<forall>ch \<in> set (map char_of xs :: string). (0x20::nat) \<le> of_char ch \<and> of_char ch \<le> (0x7E::nat)"
  proof
    fix ch :: char
    assume "ch \<in> set (map char_of xs)"
    then obtain x where x: "x \<in> set xs" "ch = char_of x" by auto
    with xs have "0x20 \<le> x" "x \<le> 0x7E" by auto
    then have "char_of x = char_of (nat x)"
      using char_of_nat [of "nat x", where ?'a = int] by simp
    then have "of_char ch = nat x mod 256"
      by (simp add: x(2))
    then have "of_char ch = nat x"
      using \<open>x \<le> 0x7E\<close> by simp
    then show "(0x20::nat) \<le> of_char ch \<and> of_char ch \<le> (0x7E::nat)"
      using \<open>0x20 \<le> x\<close> \<open>x \<le> 0x7E\<close> by linarith
  qed
  show ?thesis
    unfolding Let_def n_def [symmetric] e1_def [symmetric] xs_def [symmetric] run split_conv
    using n xs len chars by simp
qed

lemma toy_random_contract:
  "\<forall>lo hi e. lo \<le> hi \<longrightarrow>
      lo \<le> fst (uniform_int_distribution toy_random lo hi e) \<and>
      fst (uniform_int_distribution toy_random lo hi e) \<le> hi"
proof (intro allI impI)
  fix lo hi :: int and e :: nat
  assume "lo \<le> hi"
  then have "0 < hi - lo + 1" by simp
  then have "0 \<le> int e mod (hi - lo + 1)" "int e mod (hi - lo + 1) < hi - lo + 1"
    by (rule pos_mod_sign, rule pos_mod_bound)
  then have "lo \<le> lo + int e mod (hi - lo + 1)" "lo + int e mod (hi - lo + 1) \<le> hi"
    by linarith+
  then show "lo \<le> fst (uniform_int_distribution toy_random lo hi e) \<and>
      fst (uniform_int_distribution toy_random lo hi e) \<le> hi"
    by (simp add: toy_random_def)
qed

lemma toy_draws:
  "draw_values (uniform_int_distribution toy_random 32 126) 8 34 = [66, 67, 68, 69, 70, 71, 72, 73]"
  by (simp add: toy_random_def eval_nat_numeral)

theorem random_value_string_draws_witness:
  "fst (random_value_string toy_random \<lparr>engine = 33, draws = 0\<rparr>) = ''BCDEFGHI'' \<and>
   draws (snd (random_value_string toy_random \<lparr>engine = 33, draws = 0\<rparr>)) = 9"
proof -
  have n: "fst (uniform_int_distribution toy_random 3 30 33) = 8"
          "snd (uniform_int_distribution toy_random 3 30 33) = 34"
    by (simp_all add: toy_random_def)
  show ?thesis
    using random_value_string_draws [OF toy_random_contract, of "\<lparr>engine = 33, draws = 0\<rparr>"]
    by (simp add: Let_def split_def n toy_draws char_of_def)
qed

subsection \<open>The driver\<close>

lemma main_sizes:
  "size_of_int 1 = 1" "size_of_int 16 = 16" "size_of_int 64 = 64" "size_of_int 1024 = 1024"
  "size_of_int (1024 * 1024) = 1048576"
  "size_of_int (1024 * 1024 * 1024) = 1073741824"
  "size_of_int (1024 * 1024 * 64) = 67108864"
  "size_of_int (1024 * 64) = 65536"
  by (simp_all add: size_of_int_def)

lemma main_names:
  "show_size 1 = ''1''" "show_size 16 = ''16''" "show_size 64 = ''64''"
  "show_size 1024 = ''1024''" "show_size 1048576 = ''1048576''"
  "show_size 1073741824 = ''1073741824''" "show_size 67108864 = ''67108864''"
  "show_size 65536 = ''65536''"
  by (simp_all add: show_size.simps digit_char_def)

lemma vectorDoubleTest_not_randomized:
  "vectorDoubleTest P rngD s False (gen, w) =
     (gen, test (binary P) (clock P) (''Vector(double) size '' @ show_size s)
             (VectorDouble (vector s (Finite 0))) 10 False w)"
  by (simp add: vectorDoubleTest_def Let_def)

lemma vectorCharTest_not_randomized:
  "vectorCharTest P rngC s False (gen, w) =
     (gen, test (binary P) (clock P) (''Vector(uint8_t) size '' @ show_size s)
             (VectorUInt8 (vector s 0)) 10 False w)"
  by (simp add: vectorCharTest_def Let_def)

lemma main_eq:
  "main P w =
     (0, \<lparr>engine = mt19937 (random_lib P) (rd P), draws = 0\<rparr>,
      foldl (\<lambda>w' (name, data). test (binary P) (clock P) name data 10 False w') w
        [(''Vector(double) size 1'', VectorDouble (vector 1 (Finite 0))),
         (''Vector(double) size 16'', VectorDouble (vector 16 (Finite 0))),
         (''Vector(double) size 1024'', VectorDouble (vector 1024 (Finite 0))),
         (''Vector(double) size 1048576'', VectorDouble (vector 1048576 (Finite 0))),
         (''Vector(uint8_t) size 1073741824'', VectorUInt8 (vector 1073741824 0)),
         (''Vector(PoDStruct) size 1'', VectorPoDStruct (vector 1 zero_PoDStruct)),
         (''Vector(PoDStruct) size 64'', VectorPoDStruct (vector 64 zero_PoDStruct)),
         (''Vector(PoDStruct) size 1024'', VectorPoDStruct (vector 1024 zero_PoDStruct)),
         (''Vector(PoDStruct) size 1048576'', VectorPoDStruct (vector 1048576 zero_PoDStruct)),
         (''Vector(PoDStruct) size 67108864'', VectorPoDStruct (vector 67108864 zero_PoDStruct)),
         (''Vector(PoDChild) size 65536'',
            VectorPoDChild (vector_PoDChild 65536 (indeterminate P)))])"
  unfolding main_def Let_def main_sizes vectorDoubleTest_not_randomized vectorCharTest_not_randomized
    vectorPoDStructTest_def vectorPoDChildTest_def main_names split_conv
  by simp

lemma test_stdout_length:
  "length (stdout (test ser clk name data n vd w)) = length (stdout w) + 8"
  by (simp add: test_eq print_report_eq Let_def)

lemma round_trips_length:
  "length (concat (replicate n (round_trip_calls ser data))) = 4 * n"
  by (induction n) (simp_all add: round_trip_calls_def)

lemma test_calls_length:
  "length (calls (test ser clk name data n vd w)) = length (calls w) + 4 * n"
  by (simp add: test_calls round_trips_length)

lemma test_saved_payloads:
  "saved_payloads (calls (test ser clk name data n vd w)) =
     saved_payloads (calls w) @ replicate (2 * n) data"
  by (simp add: test_calls saved_payloads_append saved_payloads_round_trips)

text \<open>
  Claim C8: \<open>main\<close> runs the fixed benchmark matrix in one fixed order, calling the
  harness once per entry, eleven times in all, and returns 0. Each call makes ten
  iterations, so the run prints \<open>11 * 8\<close> lines, reads the clock \<open>11 * 80\<close> times and
  makes \<open>11 * 40\<close> library calls.
\<close>

theorem main_runs_fixed_matrix:
  "fst (main P w) = 0 \<and>
   snd (snd (main P w)) =
     foldl (\<lambda>w' (name, data). test (binary P) (clock P) name data 10 False w') w
       [(''Vector(double) size 1'', VectorDouble (vector 1 (Finite 0))),
        (''Vector(double) size 16'', VectorDouble (vector 16 (Finite 0))),
        (''Vector(double) size 1024'', VectorDouble (vector 1024 (Finite 0))),
        (''Vector(double) size 1048576'', VectorDouble (vector 1048576 (Finite 0))),
        (''Vector(uint8_t) size 1073741824'', VectorUInt8 (vector 1073741824 0)),
        (''Vector(PoDStruct) size 1'', VectorPoDStruct (vector 1 zero_PoDStruct)),
        (''Vector(PoDStruct) size 64'', VectorPoDStruct (vector 64 zero_PoDStruct)),
        (''Vector(PoDStruct) size 1024'', VectorPoDStruct (vector 1024 zero_PoDStruct)),
        (''Vector(PoDStruct) size 1048576'', VectorPoDStruct (vector 1048576 zero_PoDStruct)),
        (''Vector(PoDStruct) size 67108864'', VectorPoDStruct (vector 67108864 zero_PoDStruct)),
        (''Vector(PoDChild) size 65536'',
           VectorPoDChild (vector_PoDChild 65536 (indeterminate P)))] \<and>
   length (stdout (snd (snd (main P w)))) = length (stdout w) + 11 * 8 \<and>
   clock_reads (snd (snd (main P w))) = clock_reads w + 11 * (8 * 10) \<and>
   length (calls (snd (snd (main P w)))) = length (calls w) + 11 * (4 * 10)"
  by (simp add: main_eq test_stdout_length test_clock_reads test_calls_length)

text \<open>
  Claim C10: \<open>randomize\<close> is the constant \<open>false\<close>. Called with it, the two lambdas
  that could fill their payload with random values hand the value-initialized vector,
  all zeros, to the harness and leave the generator alone. So in a run of \<open>main\<close> no
  value is ever drawn from the generator, what the run does is the same for every value
  of \<open>std::random_device\<close> and every random library, and the payloads given to the save
  calls are the value-initialized ones.
\<close>

theorem main_payloads_value_initialized:
  "vectorDoubleTest P rngD s False (gen, w) =
     (gen, test (binary P) (clock P) (''Vector(double) size '' @ show_size s)
             (VectorDouble (vector s (Finite 0))) 10 False w) \<and>
   vectorCharTest P rngC s False (gen, w) =
     (gen, test (binary P) (clock P) (''Vector(uint8_t) size '' @ show_size s)
             (VectorUInt8 (vector s 0)) 10 False w) \<and>
   fst (snd (main P w)) = \<lparr>engine = mt19937 (random_lib P) (rd P), draws = 0\<rparr> \<and>
   snd (snd (main (P\<lparr>rd := seed\<rparr>) w)) = snd (snd (main P w)) \<and>
   snd (snd (main (P\<lparr>random_lib := R\<rparr>) w)) = snd (snd (main P w)) \<and>
   saved_payloads (calls (snd (snd (main P w)))) =
     saved_payloads (calls w) @ concat (map (replicate 20)
       [VectorDouble (vector 1 (Finite 0)),
        VectorDouble (vector 16 (Finite 0)),
        VectorDouble (vector 1024 (Finite 0)),
        VectorDouble (vector 1048576 (Finite 0)),
        VectorUInt8 (vector 1073741824 0),
        VectorPoDStruct (vector 1 zero_PoDStruct),
        VectorPoDStruct (vector 64 zero_PoDStruct),
        VectorPoDStruct (vector 1024 zero_PoDStruct),
        VectorPoDStruct (vector 1048576 zero_PoDStruct),
        VectorPoDStruct (vector 67108864 zero_PoDStruct),
        VectorPoDChild (vector_PoDChild 65536 (indeterminate P))])"
proof -
  have "saved_payloads (calls (snd (snd (main P w)))) =
     saved_payloads (calls w) @ concat (map (replicate 20)
       [VectorDouble (vector 1 (Finite 0)),
        VectorDouble (vector 16 (Finite 0)),
        VectorDouble (vector 1024 (Finite 0)),
        VectorDouble (vector 1048576 (Finite 0)),
        VectorUInt8 (vector 1073741824 0),
        VectorPoDStruct (vector 1 zero_PoDStruct),
        VectorPoDStruct (vector 64 zero_PoDStruct),
        VectorPoDStruct (vector 1024 zero_PoDStruct),
        VectorPoDStruct (vector 1048576 zero_PoDStruct),
        VectorPoDStruct (vector 67108864 zero_PoDStruct),
        VectorPoDChild (vector_PoDChild 65536 (indeterminate P))])"
    by (simp add: main_eq test_saved_payloads)
  moreover have "snd (snd (main (P\<lparr>rd := seed\<rparr>) w)) = snd (snd (main P w))"
    by (simp add: main_eq binary_def)
  moreover have "snd (snd (main (P\<lparr>random_lib := R\<rparr>) w)) = snd (snd (main P w))"
    by (simp add: main_eq binary_def)
  ultimately show ?thesis
    by (simp add: vectorDoubleTest_not_randomized vectorCharTest_not_randomized main_eq)
qed

end
